theory Spec2Isabelle
  imports Complex_Main "HOL-Library.Sublist"
begin

text \<open>
  The clause pipeline of the legal document analyzer: \<open>AIAnalyzer\<close> (segmentation,
  classification, simplification, per-clause scoring, analysis of a document) and
  \<open>RiskAnalyzer\<close> (document-level scoring of a clause, aggregation, recommendations),
  each function of the source as a function of the same name, followed by the properties
  C1 to C10.
\<close>

section \<open>Python strings\<close>

text \<open>
  A Python \<open>str\<close> is a sequence of code points. It is modelled as a \<open>string\<close> whose
  characters are the code points below 256: the model covers the texts of that range.
  \<open>length\<close> is Python's \<open>len\<close> and \<open>sublist a b\<close> is Python's \<open>a in b\<close> on strings.
  The character classes below are Python's on that range; \<open>lower_char\<close> is
  \<open>str.lower()\<close> on one character, which there is one character again.
\<close>

definition lower_char :: "char \<Rightarrow> char" where
  "lower_char c =
     (let n = (of_char c :: nat)
      in if (65 \<le> n \<and> n \<le> 90) \<or> (192 \<le> n \<and> n \<le> 222 \<and> n \<noteq> 215)
         then char_of (n + 32) else c)"

text \<open>\<open>str.lower()\<close>\<close>

definition lower :: "string \<Rightarrow> string" where
  "lower s = map lower_char s"

text \<open>\<open>str.isspace()\<close> of one character, which is also the class \<open>\s\<close> of \<open>re\<close>.\<close>

definition isspace :: "char \<Rightarrow> bool" where
  "isspace c =
     (let n = (of_char c :: nat)
      in (9 \<le> n \<and> n \<le> 13) \<or> (28 \<le> n \<and> n \<le> 32) \<or> n = 133 \<or> n = 160)"

text \<open>\<open>str.strip()\<close>\<close>

definition strip :: "string \<Rightarrow> string" where
  "strip s = rev (dropWhile isspace (rev (dropWhile isspace s)))"

text \<open>The text \<open>t\<close> between two apostrophes, as the f-strings of the source write it.\<close>

definition quoted :: "string \<Rightarrow> string" where
  "quoted t = CHR 0x27 # t @ [CHR 0x27]"

section \<open>Regular expressions\<close>

text \<open>
  The fragment of Python's \<open>re\<close> the patterns of the source are written in: literals,
  the classes \<open>\d\<close>, \<open>\s\<close>, \<open>\w\<close>, \<open>.\<close>, ranges and sets, sequence, alternation
  \<open>|\<close>, the greedy \<open>?\<close>, the greedy repetitions \<open>*\<close>, \<open>+\<close> and \<open>{n,}\<close> of one
  character class, and a capturing group.
\<close>

datatype atom = Chr char | Digit | Space | Word | Dot | Range char char | AnyOf "atom list"

definition isword :: "char \<Rightarrow> bool" where
  "isword c =
     (let n = (of_char c :: nat)
      in (48 \<le> n \<and> n \<le> 57) \<or> (65 \<le> n \<and> n \<le> 90) \<or> n = 95 \<or> (97 \<le> n \<and> n \<le> 122) \<or>
         n = 170 \<or> n = 178 \<or> n = 179 \<or> n = 181 \<or> n = 185 \<or> n = 186 \<or>
         (188 \<le> n \<and> n \<le> 190) \<or> (192 \<le> n \<and> n \<le> 214) \<or> (216 \<le> n \<and> n \<le> 246) \<or>
         248 \<le> n)"

fun atom_ok :: "atom \<Rightarrow> char \<Rightarrow> bool" where
  "atom_ok (Chr d) c = (c = d)"
| "atom_ok Digit c = (48 \<le> (of_char c :: nat) \<and> (of_char c :: nat) \<le> 57)"
| "atom_ok Space c = isspace c"
| "atom_ok Word c = isword c"
| "atom_ok Dot c = (c \<noteq> CHR 0x0A)"
| "atom_ok (Range a b) c =
     ((of_char a :: nat) \<le> of_char c \<and> (of_char c :: nat) \<le> of_char b)"
| "atom_ok (AnyOf as) c = list_ex (\<lambda>a. atom_ok a c) as"

datatype rx = Lit string | At atom | Cat rx rx | Alt rx rx | Opt rx | Rep nat atom | Grp rx

abbreviation Star :: "atom \<Rightarrow> rx" where
  "Star a \<equiv> Rep 0 a"

abbreviation Plus :: "atom \<Rightarrow> rx" where
  "Plus a \<equiv> Rep 1 a"

text \<open>The pattern that is the sequence of the patterns \<open>rs\<close>.\<close>

definition seq :: "rx list \<Rightarrow> rx" where
  "seq rs = foldr Cat rs (Lit [])"

text \<open>
  What is left of the input after \<open>a{n,}\<close>, for each number of characters the greedy
  repetition can take: the longest first, as the backtracking matcher tries them.
\<close>

fun rep_rests :: "nat \<Rightarrow> atom \<Rightarrow> string \<Rightarrow> string list" where
  "rep_rests n a [] = (if n = 0 then [[]] else [])"
| "rep_rests n a (c # cs) =
     (if atom_ok a c then rep_rests (n - 1) a cs @ (if n = 0 then [c # cs] else [])
      else if n = 0 then [c # cs] else [])"

text \<open>
  Every way a pattern matches at the start of the input, in the order the backtracking
  matcher of \<open>re\<close> finds them: the texts of the capturing groups and the input left. The
  match \<open>re\<close> reports at a position is the first of the list.
\<close>

fun rx_run :: "rx \<Rightarrow> string \<Rightarrow> (string list \<times> string) list" where
  "rx_run (Lit w) s = (if prefix w s then [([], drop (length w) s)] else [])"
| "rx_run (At a) s = (case s of [] \<Rightarrow> [] | c # cs \<Rightarrow> if atom_ok a c then [([], cs)] else [])"
| "rx_run (Cat r1 r2) s =
     concat (map (\<lambda>(g1, s1). map (\<lambda>(g2, s2). (g1 @ g2, s2)) (rx_run r2 s1)) (rx_run r1 s))"
| "rx_run (Alt r1 r2) s = rx_run r1 s @ rx_run r2 s"
| "rx_run (Opt r) s = rx_run r s @ [([], s)]"
| "rx_run (Rep n a) s = map (\<lambda>s'. ([], s')) (rep_rests n a s)"
| "rx_run (Grp r) s = map (\<lambda>(g, s'). (take (length s - length s') s # g, s')) (rx_run r s)"

text \<open>
  \<open>re.search\<close>: the first match at the leftmost position that has one, as the matched
  text (\<open>group()\<close>) and the texts of the groups; \<open>None\<close> when no position has a match.
\<close>

fun re_search :: "rx \<Rightarrow> string \<Rightarrow> (string \<times> string list) option" where
  "re_search p [] = (case rx_run p [] of [] \<Rightarrow> None | (g, s') # _ \<Rightarrow> Some ([], g))"
| "re_search p (c # cs) =
     (case rx_run p (c # cs) of
        [] \<Rightarrow> re_search p cs
      | (g, s') # _ \<Rightarrow> Some (take (length (c # cs) - length s') (c # cs), g))"

text \<open>
  \<open>re.split\<close> for a pattern without groups: the texts between the successive matches,
  \<open>acc\<close> being the current text in reverse. A match of no character is not a separator
  here; the separators of the source all begin with a newline and match none.
\<close>

function re_split_acc :: "rx \<Rightarrow> string \<Rightarrow> string \<Rightarrow> string list" where
  "re_split_acc p acc [] = [rev acc]"
| "re_split_acc p acc (c # cs) =
     (case rx_run p (c # cs) of
        [] \<Rightarrow> re_split_acc p (c # acc) cs
      | (g, s') # _ \<Rightarrow>
          if length s' < length (c # cs) then rev acc # re_split_acc p [] s'
          else re_split_acc p (c # acc) cs)"
  by pat_completeness auto
termination
  by (relation "measure (\<lambda>(p, acc, s). length s)") auto

definition re_split :: "rx \<Rightarrow> string \<Rightarrow> string list" where
  "re_split p s = re_split_acc p [] s"

section \<open>Risk results\<close>

text \<open>The dictionary \<open>{'score': .., 'level': .., 'factors': ..}\<close> both scorers return.\<close>

record risk_result =
  score :: int
  level :: string
  factors :: "string list"

text \<open>
  The loop \<open>for term in terms: if term.lower() in text: score += w; factors.append(msg term)\<close>,
  on the pair of the running score and the factor list.
\<close>

fun add_hits ::
  "int \<Rightarrow> (string \<Rightarrow> string) \<Rightarrow> string \<Rightarrow> string list \<Rightarrow> int \<times> string list \<Rightarrow> int \<times> string list"
where
  "add_hits w msg text [] st = st"
| "add_hits w msg text (t # ts) (sc, fs) =
     add_hits w msg text ts
       (if sublist (lower t) text then (sc + w, fs @ [msg t]) else (sc, fs))"

section \<open>AIAnalyzer: segmentation\<close>

definition nl :: string where
  "nl = [CHR 0x0A]"

text \<open>
  The five separators of \<open>_split_into_clauses\<close>, in their order:
  \<^verbatim>\<open>\n\s*\d+\.\s+\<close>, \<^verbatim>\<open>\n\s*\([a-z]\)\s+\<close>, \<^verbatim>\<open>\n\s*[A-Z\s]{3,}:\s*\n\<close>,
  \<^verbatim>\<open>\n\s*SECTION\s+\d+\<close> and \<^verbatim>\<open>\n\s*ARTICLE\s+\d+\<close>.
\<close>

definition clause_separators :: "rx list" where
  "clause_separators =
     [seq [Lit nl, Star Space, Plus Digit, Lit ''.'', Plus Space],
      seq [Lit nl, Star Space, Lit ''('', At (Range CHR ''a'' CHR ''z''), Lit '')'', Plus Space],
      seq [Lit nl, Star Space, Rep 3 (AnyOf [Range CHR ''A'' CHR ''Z'', Space]), Lit '':'',
           Star Space, Lit nl],
      seq [Lit nl, Star Space, Lit ''SECTION'', Plus Space, Plus Digit],
      seq [Lit nl, Star Space, Lit ''ARTICLE'', Plus Space, Plus Digit]]"

text \<open>
  One pass of the loop over the separators: every section is split, the parts stripped
  and the empty ones dropped.
\<close>

definition split_pass :: "rx \<Rightarrow> string list \<Rightarrow> string list" where
  "split_pass pattern sections =
     concat (map (\<lambda>section.
        map strip (filter (\<lambda>p. strip p \<noteq> []) (re_split pattern section)))
      sections)"

text \<open>
  The \<open>try\<close> block of \<open>AIAnalyzer._split_into_clauses\<close>. No operation of it raises on a
  string, so it is the function.
\<close>

definition split_into_clauses :: "string \<Rightarrow> string list" where
  "split_into_clauses text =
     (let sections = fold split_pass clause_separators [text];
          meaningful_sections = filter (\<lambda>s. length s > 100) sections
      in take 20 meaningful_sections)"

text \<open>\<open>str.split(sep)\<close> for a separator of two characters, \<open>acc\<close> the current part in reverse.\<close>

fun split_on2 :: "char \<Rightarrow> char \<Rightarrow> string \<Rightarrow> string \<Rightarrow> string list" where
  "split_on2 a b acc (x # y # s) =
     (if x = a \<and> y = b then rev acc # split_on2 a b [] s else split_on2 a b (x # acc) (y # s))"
| "split_on2 a b acc [x] = [rev (x # acc)]"
| "split_on2 a b acc [] = [rev acc]"

text \<open>
  The \<open>except\<close> branch of \<open>_split_into_clauses\<close>, the split at blank lines.
\<close>

definition split_into_clauses_fallback :: "string \<Rightarrow> string list" where
  "split_into_clauses_fallback text =
     take 10 (map strip (filter (\<lambda>p. length (strip p) > 100)
       (split_on2 CHR 0x0A CHR 0x0A [] text)))"

section \<open>AIAnalyzer: classification\<close>

text \<open>
  The dictionary \<open>clause_patterns\<close>, in the order it is written, each pattern parsed:
  \<^verbatim>\<open>(?:..)\<close> only groups, \<^verbatim>\<open>x?\<close> is \<open>Opt\<close>, \<^verbatim>\<open>\w*\<close> is \<open>Star Word\<close>,
  \<^verbatim>\<open>\s+\<close> is \<open>Plus Space\<close>.
\<close>

definition clause_patterns :: "(string \<times> rx list) list" where
  "clause_patterns =
     [(''termination'',
        [seq [Lit ''terminat'', Star Word],
         seq [Lit ''end'', Plus Space, Opt (seq [Lit ''of'', Plus Space]),
              Opt (seq [Lit ''this'', Plus Space]), Alt (Lit ''agreement'') (Lit ''contract'')],
         seq [Lit ''expire'', Star Word],
         Lit ''dissolution'',
         seq [Lit ''cancell'', Star Word]]),
      (''liability'',
        [seq [Lit ''liabilit'', Star Word],
         seq [Lit ''responsible'', Star Word],
         seq [Lit ''damage'', Opt (Lit ''s'')],
         seq [Lit ''loss'', Star Word],
         seq [Lit ''indemnif'', Star Word],
         seq [Lit ''hold'', Plus Space, Lit ''harmless'']]),
      (''payment'',
        [seq [Lit ''payment'', Star Word],
         seq [Lit ''pay'', Star Word],
         seq [Lit ''fee'', Star Word],
         seq [Lit ''cost'', Star Word],
         seq [Lit ''price'', Star Word],
         seq [Lit ''invoice'', Star Word],
         Lit ''billing'',
         seq [Lit ''charge'', Star Word]]),
      (''confidentiality'',
        [seq [Lit ''confidential'', Star Word],
         seq [Lit ''non'', Opt (At Dot), Lit ''disclosure''],
         Lit ''proprietary'',
         seq [Lit ''trade'', Plus Space, Lit ''secret'', Star Word],
         seq [Lit ''private'', Star Word]]),
      (''intellectual_property'',
        [seq [Lit ''intellectual'', Plus Space, Lit ''property''],
         seq [Lit ''copyright'', Star Word],
         seq [Lit ''trademark'', Star Word],
         seq [Lit ''patent'', Star Word],
         Lit ''ownership'']),
      (''dispute_resolution'',
        [seq [Lit ''dispute'', Star Word],
         Lit ''arbitration'',
         Lit ''mediation'',
         seq [Lit ''court'', Star Word],
         Lit ''jurisdiction'',
         seq [Lit ''governing'', Plus Space, Lit ''law'']])]"

text \<open>\<open>re.search(pattern, text)\<close> read as a condition.\<close>

definition re_found :: "rx \<Rightarrow> string \<Rightarrow> bool" where
  "re_found p text = (re_search p text \<noteq> None)"

text \<open>
  The loop \<open>for clause_type, patterns in ...: for pattern in patterns: if re.search(..):
  return clause_type\<close>; \<open>None\<close> when the loop ends without returning.
\<close>

fun first_pattern_type :: "(string \<times> rx list) list \<Rightarrow> string \<Rightarrow> string option" where
  "first_pattern_type [] text_lower = None"
| "first_pattern_type ((clause_type, patterns) # rest) text_lower =
     (if list_ex (\<lambda>pattern. re_found pattern text_lower) patterns then Some clause_type
      else first_pattern_type rest text_lower)"

text \<open>\<open>AIAnalyzer._identify_clause_type\<close>\<close>

definition identify_clause_type :: "string \<Rightarrow> string" where
  "identify_clause_type text =
     (let text_lower = lower text
      in case first_pattern_type clause_patterns text_lower of
           Some clause_type \<Rightarrow> clause_type
         | None \<Rightarrow>
             if list_ex (\<lambda>word. sublist word text_lower)
                  [''shall'', ''will'', ''must'', ''required'']
             then ''obligation''
             else if list_ex (\<lambda>word. sublist word text_lower)
                  [''may'', ''can'', ''permitted'', ''allowed'']
             then ''right''
             else ''general'')"

section \<open>AIAnalyzer: simplification\<close>

definition simplification_templates :: "(string \<times> string) list" where
  "simplification_templates =
     [(''termination'', ''This explains how either party can end the contract.''),
      (''liability'', ''This describes who is responsible if something goes wrong.''),
      (''payment'', ''This covers how much you pay and when payments are due.''),
      (''confidentiality'', ''This requires keeping shared information private.''),
      (''intellectual_property'', ''This defines who owns ideas and creative work.''),
      (''dispute_resolution'', ''This explains how to resolve disagreements.''),
      (''obligation'', ''This describes what you must do under the contract.''),
      (''right'', ''This explains what you're allowed to do.'')]"

text \<open>\<^verbatim>\<open>(\d+)\s+days?\s+notice\<close>\<close>

definition notice_pattern :: rx where
  "notice_pattern =
     seq [Grp (Plus Digit), Plus Space, Lit ''day'', Opt (Lit ''s''), Plus Space, Lit ''notice'']"

text \<open>\<^verbatim>\<open>\$[\d,]+\<close>\<close>

definition amount_pattern :: rx where
  "amount_pattern = seq [Lit ''$'', Plus (AnyOf [Digit, Chr CHR '','']) ]"

text \<open>
  \<open>AIAnalyzer._simplify_clause\<close>. \<open>group(1)\<close> is the text of the one group of the
  notice pattern, \<open>group()\<close> the matched text.
\<close>

definition simplify_clause :: "string \<Rightarrow> string \<Rightarrow> string" where
  "simplify_clause clause_text clause_type =
     (let base_explanation =
            (case map_of simplification_templates clause_type of
               Some t \<Rightarrow> t | None \<Rightarrow> ''This is a standard contract provision.'');
          text_lower = lower clause_text
      in if sublist ''termination'' text_lower then
           (let base1 =
                  (if sublist ''notice'' text_lower then
                     (case re_search notice_pattern text_lower of
                        Some (m, days # _) \<Rightarrow>
                          base_explanation @ '' You need to give '' @ days @ '' days notice.''
                      | _ \<Rightarrow> base_explanation)
                   else base_explanation)
            in if sublist ''cause'' text_lower \<and> sublist ''without'' text_lower
               then base1 @ '' Either party can terminate without giving a specific reason.''
               else base1)
         else if sublist ''payment'' text_lower then
           (let base1 =
                  (case re_search amount_pattern clause_text of
                     Some (m, _) \<Rightarrow> base_explanation @ '' The amount involved is '' @ m @ ''.''
                   | None \<Rightarrow> base_explanation)
            in if sublist ''late'' text_lower \<and> sublist ''fee'' text_lower
               then base1 @ '' There are penalties for late payment.''
               else base1)
         else base_explanation)"

section \<open>AIAnalyzer: the per-clause scorer\<close>

definition high_risk_keywords :: "string list" where
  "high_risk_keywords =
     [''unlimited liability'', ''personal guarantee'', ''no refund'',
      ''immediate termination'', ''sole discretion'', ''without cause'',
      ''liquidated damages'', ''penalty'', ''forfeiture'']"

definition medium_risk_keywords :: "string list" where
  "medium_risk_keywords =
     [''limited liability'', ''reasonable notice'', ''material breach'',
      ''cure period'', ''mutual agreement'', ''standard terms'']"

text \<open>The block "Clause-specific risk assessment" of \<open>_assess_clause_risk\<close>.\<close>

definition clause_specific_risk :: "string \<Rightarrow> string \<Rightarrow> int \<times> string list \<Rightarrow> int \<times> string list" where
  "clause_specific_risk clause_type text_lower st =
     (case st of (risk_score, risk_factors) \<Rightarrow>
        if clause_type = ''termination'' then
          (if sublist ''immediate'' text_lower \<or> sublist ''without notice'' text_lower
           then (risk_score + 2, risk_factors @ [''Allows immediate termination''])
           else (risk_score, risk_factors))
        else if clause_type = ''liability'' then
          (if sublist ''unlimited'' text_lower
           then (risk_score + 3, risk_factors @ [''Unlimited liability exposure''])
           else if sublist ''limited'' text_lower
           then (risk_score - 1, risk_factors @ [''Liability is limited''])
           else (risk_score, risk_factors))
        else if clause_type = ''payment'' then
          (if sublist ''penalty'' text_lower \<or> sublist ''liquidated damages'' text_lower
           then (risk_score + 2, risk_factors @ [''Contains payment penalties''])
           else (risk_score, risk_factors))
        else (risk_score, risk_factors))"

text \<open>The score of \<open>_assess_clause_risk\<close> before "Normalize score to 1-10 range".\<close>

definition assess_clause_raw :: "string \<Rightarrow> string \<Rightarrow> int \<times> string list" where
  "assess_clause_raw clause_text clause_type =
     (let text_lower = lower clause_text;
          st1 = add_hits 2 (\<lambda>t. ''Contains high-risk term: '' @ quoted t)
                  text_lower high_risk_keywords (5, []);
          st2 = add_hits 1 (\<lambda>t. ''Contains medium-risk term: '' @ quoted t)
                  text_lower medium_risk_keywords st1
      in clause_specific_risk clause_type text_lower st2)"

text \<open>\<open>AIAnalyzer._assess_clause_risk\<close>\<close>

definition assess_clause_risk :: "string \<Rightarrow> string \<Rightarrow> risk_result" where
  "assess_clause_risk clause_text clause_type =
     (case assess_clause_raw clause_text clause_type of (raw_score, raw_factors) \<Rightarrow>
        let risk_score = max 1 (min 10 raw_score);
            risk_level = (if risk_score \<le> 3 then ''low''
                          else if risk_score \<le> 7 then ''medium''
                          else ''high'');
            risk_factors = (if raw_factors = [] then [''Standard clause with typical terms'']
                            else raw_factors)
        in \<lparr>score = risk_score, level = risk_level, factors = risk_factors\<rparr>)"

section \<open>Clause records\<close>

text \<open>
  The dictionary \<open>_analyze_clause\<close> returns for one clause, and \<open>assess_risk\<close> reads.
  The key \<open>id\<close> is the field \<open>clause_id\<close>.
\<close>

record clause =
  clause_id :: string
  title :: string
  content :: string
  simplified :: string
  risk_level :: string
  risk_score :: int
  risk_factors :: "string list"
  clause_type :: string

section \<open>AIAnalyzer: the analysis of a clause and of a document\<close>

text \<open>\<open>str(n)\<close> for a natural number.\<close>

function str_nat :: "nat \<Rightarrow> string" where
  "str_nat n =
     (if n < 10 then [char_of (48 + n)] else str_nat (n div 10) @ [char_of (48 + n mod 10)])"
  by pat_completeness auto
termination
  by (relation "measure id") auto

text \<open>\<open>str.replace(a, b)\<close> for single characters.\<close>

definition replace_char :: "char \<Rightarrow> char \<Rightarrow> string \<Rightarrow> string" where
  "replace_char a b s = map (\<lambda>c. if c = a then b else c) s"

text \<open>
  \<open>str.title()\<close> on ASCII text, which the category labels are: a letter after a letter is
  lower-cased, any other letter upper-cased. \<open>prev\<close> says whether the previous character
  was a letter.
\<close>

definition is_ascii_letter :: "char \<Rightarrow> bool" where
  "is_ascii_letter c =
     (let n = (of_char c :: nat) in (65 \<le> n \<and> n \<le> 90) \<or> (97 \<le> n \<and> n \<le> 122))"

definition upper_ascii :: "char \<Rightarrow> char" where
  "upper_ascii c =
     (let n = (of_char c :: nat) in if 97 \<le> n \<and> n \<le> 122 then char_of (n - 32) else c)"

fun title_from :: "bool \<Rightarrow> string \<Rightarrow> string" where
  "title_from prev [] = []"
| "title_from prev (c # cs) =
     (if prev then lower_char c else upper_ascii c) # title_from (is_ascii_letter c) cs"

definition title_case :: "string \<Rightarrow> string" where
  "title_case s = title_from False s"

text \<open>
  The \<open>try\<close> block of \<open>AIAnalyzer._analyze_clause\<close>; no operation of it raises on a
  string. \<open>analyze_clause_error\<close> is what its \<open>except\<close> branch returns.
\<close>

definition analyze_clause :: "string \<Rightarrow> nat \<Rightarrow> clause" where
  "analyze_clause clause_text clause_index =
     (let ctype = identify_clause_type clause_text;
          simplified_text = simplify_clause clause_text ctype;
          risk_assessment = assess_clause_risk clause_text ctype
      in \<lparr>clause_id = ''clause_'' @ str_nat clause_index,
          title = title_case (replace_char CHR ''_'' CHR '' '' ctype),
          content = (if length clause_text > 500 then take 500 clause_text @ ''...''
                     else clause_text),
          simplified = simplified_text,
          risk_level = level risk_assessment,
          risk_score = score risk_assessment,
          risk_factors = factors risk_assessment,
          clause_type = ctype\<rparr>)"

definition analyze_clause_error :: "string \<Rightarrow> nat \<Rightarrow> clause" where
  "analyze_clause_error clause_text clause_index =
     \<lparr>clause_id = ''clause_'' @ str_nat clause_index,
      title = ''Clause '' @ str_nat (clause_index + 1),
      content = (if length clause_text > 200 then take 200 clause_text @ ''...''
                 else clause_text),
      simplified = ''Unable to analyze this clause automatically.'',
      risk_level = ''medium'',
      risk_score = 5,
      risk_factors = [''Analysis failed''],
      clause_type = ''unknown''\<rparr>"

text \<open>\<open>AIAnalyzer._detect_document_type\<close>\<close>

definition detect_document_type :: "string \<Rightarrow> string" where
  "detect_document_type text =
     (let text_lower = lower text
      in if sublist ''service agreement'' text_lower \<or> sublist ''services agreement'' text_lower
         then ''Service Agreement''
         else if sublist ''employment'' text_lower \<and> sublist ''agreement'' text_lower
         then ''Employment Agreement''
         else if sublist ''lease'' text_lower \<or> sublist ''rental'' text_lower
         then ''Lease Agreement''
         else if sublist ''non-disclosure'' text_lower \<or> sublist ''nda'' text_lower
         then ''Non-Disclosure Agreement''
         else if sublist ''license'' text_lower \<and> sublist ''agreement'' text_lower
         then ''License Agreement''
         else if sublist ''purchase'' text_lower \<or> sublist ''sale'' text_lower
         then ''Purchase Agreement''
         else if sublist ''partnership'' text_lower
         then ''Partnership Agreement''
         else if sublist ''contract'' text_lower
         then ''Contract''
         else ''Legal Document'')"

text \<open>
  The source texts of the patterns of four categories of \<open>clause_patterns\<close>, which
  \<open>_generate_summary\<close> reads character by character. \<open>bs\<close> is the backslash.
\<close>

definition bs :: string where
  "bs = [CHR 0x5C]"

definition clause_pattern_sources :: "(string \<times> string list) list" where
  "clause_pattern_sources =
     [(''termination'',
        [''terminat'' @ bs @ ''w*'',
         ''end'' @ bs @ ''s+(?:of'' @ bs @ ''s+)?(?:this'' @ bs @ ''s+)?(?:agreement|contract)'',
         ''expire'' @ bs @ ''w*'', ''dissolution'', ''cancell'' @ bs @ ''w*'']),
      (''liability'',
        [''liabilit'' @ bs @ ''w*'', ''responsible'' @ bs @ ''w*'', ''damages?'',
         ''loss'' @ bs @ ''w*'', ''indemnif'' @ bs @ ''w*'', ''hold'' @ bs @ ''s+harmless'']),
      (''payment'',
        [''payment'' @ bs @ ''w*'', ''pay'' @ bs @ ''w*'', ''fee'' @ bs @ ''w*'',
         ''cost'' @ bs @ ''w*'', ''price'' @ bs @ ''w*'', ''invoice'' @ bs @ ''w*'', ''billing'',
         ''charge'' @ bs @ ''w*'']),
      (''confidentiality'',
        [''confidential'' @ bs @ ''w*'', ''non.?disclosure'', ''proprietary'',
         ''trade'' @ bs @ ''s+secret'' @ bs @ ''w*'', ''private'' @ bs @ ''w*''])]"

text \<open>
  The condition \<open>any(pattern in text_lower for patterns in clause_patterns[k] for pattern in
  patterns)\<close> of \<open>_generate_summary\<close>: \<open>patterns\<close> runs over the pattern texts of the
  category and \<open>pattern\<close> over the characters of one text.
\<close>

definition theme_present :: "string \<Rightarrow> string \<Rightarrow> bool" where
  "theme_present k text_lower =
     (case map_of clause_pattern_sources k of
        None \<Rightarrow> False
      | Some sources \<Rightarrow>
          list_ex (\<lambda>patterns. list_ex (\<lambda>pattern. sublist [pattern] text_lower) patterns) sources)"

text \<open>\<open>str.split()\<close>: the maximal runs of characters that are not whitespace.\<close>

fun split_ws :: "string \<Rightarrow> string \<Rightarrow> string list" where
  "split_ws acc [] = (if acc = [] then [] else [rev acc])"
| "split_ws acc (c # cs) =
     (if isspace c then (if acc = [] then split_ws [] cs else rev acc # split_ws [] cs)
      else split_ws (c # acc) cs)"

text \<open>\<open>sep.join(parts)\<close>\<close>

fun join :: "string \<Rightarrow> string list \<Rightarrow> string" where
  "join sep [] = []"
| "join sep [p] = p"
| "join sep (p # q # ps) = p @ sep @ join sep (q # ps)"

text \<open>The \<open>try\<close> block of \<open>AIAnalyzer._generate_summary\<close>; nothing in it raises.\<close>

definition generate_summary :: "string \<Rightarrow> string \<Rightarrow> string" where
  "generate_summary text filename =
     (let doc_type = detect_document_type text;
          word_count = length (split_ws [] text);
          summary1 = ''This '' @ doc_type @ '' document ('' @ filename @
                     '') contains approximately '' @ str_nat word_count @ '' words. '';
          clause_count = length (split_into_clauses text);
          summary2 = summary1 @ ''The document has been analyzed and contains '' @
                     str_nat clause_count @ '' major clauses or sections. '';
          text_lower = lower text;
          themes =
            (if theme_present ''termination'' text_lower then [''contract termination''] else []) @
            (if theme_present ''payment'' text_lower then [''payment terms''] else []) @
            (if theme_present ''liability'' text_lower then [''liability provisions''] else []) @
            (if theme_present ''confidentiality'' text_lower
             then [''confidentiality requirements''] else [])
      in if themes \<noteq> [] then summary2 @ ''Key areas covered include: '' @ join '', '' themes @ ''.''
         else summary2)"

text \<open>The dictionary \<open>analyze_document\<close> returns.\<close>

record document_analysis =
  summary :: string
  clauses :: "clause list"
  analysis_timestamp :: string
  document_type :: string

text \<open>
  The \<open>try\<close> block of \<open>AIAnalyzer.analyze_document\<close>. The one reading of the clock,
  \<open>datetime.now().isoformat()\<close>, is the argument \<open>now\<close>; writing to the log is left out.
  Nothing in the block raises on strings; \<open>analyze_document_error\<close> is the result of
  the \<open>except\<close> branch for the message \<open>msg\<close> of the exception.
\<close>

definition analyze_document :: "string \<Rightarrow> string \<Rightarrow> string \<Rightarrow> document_analysis" where
  "analyze_document now text filename =
     (let sections = split_into_clauses text;
          analyzed_clauses =
            map (\<lambda>(i, section). analyze_clause section i)
              (filter (\<lambda>(i, section). length (strip section) > 50) (enumerate 0 sections))
      in \<lparr>summary = generate_summary text filename,
          clauses = analyzed_clauses,
          analysis_timestamp = now,
          document_type = detect_document_type text\<rparr>)"

definition analyze_document_error :: "string \<Rightarrow> string \<Rightarrow> document_analysis" where
  "analyze_document_error now msg =
     \<lparr>summary = ''Error analyzing document: '' @ msg,
      clauses = [],
      analysis_timestamp = now,
      document_type = ''unknown''\<rparr>"

section \<open>RiskAnalyzer: the document-level per-clause scorer\<close>

definition high_risk_terms :: "(string \<times> string list) list" where
  "high_risk_terms =
     [(''liability'',
        [''unlimited liability'', ''personal liability'', ''joint and several liability'',
         ''full liability'', ''complete liability'', ''absolute liability'']),
      (''termination'',
        [''immediate termination'', ''terminate without cause'', ''terminate at will'',
         ''no notice termination'', ''summary termination'', ''terminate for convenience'']),
      (''payment'',
        [''no refund'', ''non-refundable'', ''liquidated damages'', ''penalty clause'',
         ''forfeiture'', ''compound interest'', ''usurious interest'']),
      (''obligations'',
        [''personal guarantee'', ''unlimited guarantee'', ''unconditional guarantee'',
         ''irrevocable commitment'', ''binding obligation'']),
      (''dispute'',
        [''waive jury trial'', ''binding arbitration'', ''no appeal'',
         ''attorney fees to prevailing party'', ''forum selection'']),
      (''modification'',
        [''unilateral modification'', ''sole discretion'', ''without consent'',
         ''may change at any time'', ''reserves the right''])]"

definition medium_risk_terms :: "(string \<times> string list) list" where
  "medium_risk_terms =
     [(''liability'',
        [''limited liability'', ''liability cap'', ''consequential damages excluded'']),
      (''termination'',
        [''terminate with cause'', ''30 days notice'', ''material breach'']),
      (''payment'',
        [''late fees'', ''interest charges'', ''partial refund'']),
      (''obligations'',
        [''best efforts'', ''commercially reasonable efforts'', ''due diligence''])]"

definition low_risk_terms :: "(string \<times> string list) list" where
  "low_risk_terms =
     [(''liability'',
        [''mutual liability limitation'', ''liability excluded'', ''no liability'']),
      (''termination'',
        [''terminate for convenience with notice'', ''mutual termination'', ''cure period'']),
      (''payment'',
        [''pro-rated refund'', ''reasonable fees'', ''market rate''])]"

text \<open>The dictionary \<open>risk_weights\<close>, read only at its seven literal keys.\<close>

record weights =
  high_risk_term :: int
  medium_risk_term :: int
  low_risk_term :: int
  unclear_language :: int
  one_sided_clause :: int
  broad_scope :: int
  time_pressure :: int

definition risk_weights :: weights where
  "risk_weights =
     \<lparr>high_risk_term = 3, medium_risk_term = 2, low_risk_term = - 1, unclear_language = 2,
      one_sided_clause = 2, broad_scope = 1, time_pressure = 1\<rparr>"

definition base_risk_scores :: "(string \<times> int) list" where
  "base_risk_scores =
     [(''termination'', 6), (''liability'', 7), (''payment'', 5), (''confidentiality'', 3),
      (''intellectual_property'', 4), (''dispute_resolution'', 5), (''obligations'', 5),
      (''warranties'', 4), (''indemnification'', 7), (''force_majeure'', 2), (''general'', 4)]"

text \<open>
  The loop \<open>for category, terms in table.items(): for term in terms: ...\<close>: the dictionary
  keeps the order in which it was written.
\<close>

fun add_table_hits ::
  "int \<Rightarrow> (string \<Rightarrow> string) \<Rightarrow> string \<Rightarrow> (string \<times> string list) list
     \<Rightarrow> int \<times> string list \<Rightarrow> int \<times> string list"
where
  "add_table_hits w msg text [] st = st"
| "add_table_hits w msg text ((category, terms) # rest) st =
     add_table_hits w msg text rest (add_hits w msg text terms st)"

definition ambiguous_terms :: "string list" where
  "ambiguous_terms = [''reasonable'', ''appropriate'', ''satisfactory'', ''adequate'', ''fair'']"

definition one_sided_indicators :: "string list" where
  "one_sided_indicators =
     [''sole discretion'', ''absolute right'', ''unilateral'', ''without limitation'',
      ''at our option'', ''we may'', ''company reserves'']"

definition broad_scope_terms :: "string list" where
  "broad_scope_terms = [''all'', ''any'', ''every'', ''entire'', ''complete'', ''total'']"

definition time_pressure_terms :: "string list" where
  "time_pressure_terms = [''immediately'', ''forthwith'', ''without delay'', ''urgently'']"

text \<open>\<open>RiskAnalyzer._check_additional_risk_factors\<close>\<close>

definition check_additional_risk_factors :: "string \<Rightarrow> int \<Rightarrow> int \<times> string list" where
  "check_additional_risk_factors clause_text current_score =
     (let ambiguous_count = length (filter (\<lambda>t. sublist t clause_text) ambiguous_terms);
          (adj1, fs1) =
            (if ambiguous_count \<ge> 2
             then (unclear_language risk_weights, [''Contains ambiguous language''])
             else (0, []));
          (adj2, fs2) =
            (if list_ex (\<lambda>i. sublist i clause_text) one_sided_indicators
             then (adj1 + one_sided_clause risk_weights,
                   fs1 @ [''One-sided clause favoring other party''])
             else (adj1, fs1));
          broad_count =
            length (filter (\<lambda>t. sublist ('' '' @ t @ '' '') clause_text) broad_scope_terms);
          (adj3, fs3) =
            (if broad_count \<ge> 3
             then (adj2 + broad_scope risk_weights, fs2 @ [''Unusually broad scope''])
             else (adj2, fs2));
          (adj4, fs4) =
            (if list_ex (\<lambda>t. sublist t clause_text) time_pressure_terms
             then (adj3 + time_pressure risk_weights,
                   fs3 @ [''Contains time pressure elements''])
             else (adj3, fs3))
      in (current_score + adj4, fs4))"

text \<open>\<open>RiskAnalyzer._score_to_level\<close>\<close>

definition score_to_level :: "int \<Rightarrow> string" where
  "score_to_level s = (if s \<ge> 7 then ''high'' else if s \<ge> 4 then ''medium'' else ''low'')"

text \<open>
  The score and factors of \<open>RiskAnalyzer._analyze_clause_risk\<close> before
  "Normalize score to 1-10 range". \<open>dict.get(clause_type, 4)\<close> is the lookup with a default.
\<close>

definition analyze_clause_raw :: "clause \<Rightarrow> int \<times> string list" where
  "analyze_clause_raw c =
     (let clause_text = lower (content c);
          base = (case map_of base_risk_scores (clause_type c) of Some b \<Rightarrow> b | None \<Rightarrow> 4);
          st1 = add_table_hits (high_risk_term risk_weights)
                  (\<lambda>t. ''High-risk term: '' @ quoted t) clause_text high_risk_terms (base, []);
          st2 = add_table_hits (medium_risk_term risk_weights)
                  (\<lambda>t. ''Medium-risk term: '' @ quoted t) clause_text medium_risk_terms st1;
          st3 = add_table_hits (low_risk_term risk_weights)
                  (\<lambda>t. ''Protective term: '' @ quoted t) clause_text low_risk_terms st2;
          (sc4, additional_factors) = check_additional_risk_factors clause_text (fst st3)
      in (sc4, snd st3 @ additional_factors))"

text \<open>
  \<open>RiskAnalyzer._analyze_clause_risk\<close>. No operation of its \<open>try\<close> block raises on a
  clause record whose fields are strings; \<open>clause_risk_error\<close> is what its \<open>except\<close>
  branch returns.
\<close>

definition analyze_clause_risk :: "clause \<Rightarrow> risk_result" where
  "analyze_clause_risk c =
     (case analyze_clause_raw c of (raw_score, raw_factors) \<Rightarrow>
        let risk_score = max 1 (min 10 raw_score)
        in \<lparr>score = risk_score, level = score_to_level risk_score, factors = raw_factors\<rparr>)"

definition clause_risk_error :: risk_result where
  "clause_risk_error = \<lparr>score = 5, level = ''medium'', factors = [''Analysis error'']\<rparr>"

section \<open>RiskAnalyzer: aggregation\<close>

text \<open>
  The averages and percentages of the source are floats. Where one is compared with an
  integer threshold the model compares the exact quotient, which gives the same answer
  for every list of fewer than \<open>2 ^ 51\<close> scores between 1 and 10. Where one is rounded
  (\<open>round(x, 1)\<close>) or written with one decimal (\<open>f"{x:.1f}"\<close>), the model applies the
  two functions of \<open>float_ops\<close> to the exact value: what they return is left open.
\<close>

record float_ops =
  round1 :: "rat \<Rightarrow> rat"
  fmt1 :: "rat \<Rightarrow> string"

text \<open>
  The recommendation texts. Each constructor is one string literal of the source:
  \<^item> \<open>Rec_Critical\<close>: "CRITICAL: This contract has significant risks. Strongly consider
    legal review before signing." after a leading symbol;
  \<^item> \<open>Rec_Negotiate\<close>: "Negotiate key terms to reduce your exposure, especially in
    liability and termination clauses.";
  \<^item> \<open>Rec_Caution\<close>: "CAUTION: This contract has moderate risks. Review carefully and
    consider legal consultation." after a leading symbol;
  \<^item> \<open>Rec_Focus\<close>: "Focus on understanding and potentially negotiating the higher-risk
    clauses.";
  \<^item> \<open>Rec_Manageable\<close>: "This contract appears to have manageable risk levels." after a
    leading symbol;
  \<^item> \<open>Rec_Liability_Cap\<close>: "Consider negotiating a liability cap to limit your financial
    exposure.";
  \<^item> \<open>Rec_Cure_Period\<close>: "Request a cure period or notice requirement for termination
    clauses.";
  \<^item> \<open>Rec_Balanced\<close>: "Push for more balanced terms that don't heavily favor the other
    party.";
  \<^item> \<open>Rec_Clarify\<close>: "Request clarification on vague or ambiguous language.";
  \<^item> \<open>Rec_Payment\<close>: "Review payment terms carefully - consider negotiating penalties
    and fees.";
  \<^item> \<open>Rec_Liability\<close>: "The liability clause is high-risk - consider insurance or
    indemnification.";
  \<^item> \<open>Rec_Termination\<close>: "Termination terms are unfavorable - negotiate for more
    balanced conditions.";
  \<^item> \<open>Rec_Understand\<close>: "Ensure you understand all terms before signing.";
  \<^item> \<open>Rec_Keep_Copies\<close>: "Keep copies of all documents and correspondence.";
  \<^item> \<open>Rec_Analysis_Required\<close>: "Document analysis required";
  \<^item> \<open>Rec_Unable\<close>: "Unable to generate specific recommendations. Consider
    professional legal review."
\<close>

datatype recommendation =
    Rec_Critical | Rec_Negotiate | Rec_Caution | Rec_Focus | Rec_Manageable
  | Rec_Liability_Cap | Rec_Cure_Period | Rec_Balanced | Rec_Clarify
  | Rec_Payment | Rec_Liability | Rec_Termination
  | Rec_Understand | Rec_Keep_Copies | Rec_Analysis_Required | Rec_Unable

text \<open>\<open>RiskAnalyzer._determine_overall_risk\<close>\<close>

definition determine_overall_risk :: "rat \<Rightarrow> int \<Rightarrow> nat \<Rightarrow> string" where
  "determine_overall_risk avg_score max_score high_risk_count =
     (if avg_score \<ge> 7 \<or> max_score \<ge> 9 \<or> high_risk_count \<ge> 3 then ''high''
      else if avg_score \<ge> 5 \<or> max_score \<ge> 7 \<or> high_risk_count \<ge> 1 then ''medium''
      else ''low'')"

text \<open>\<open>sum(scores) / len(scores)\<close>, for a list that is not empty.\<close>

definition average :: "int list \<Rightarrow> rat" where
  "average scores = of_int (sum_list scores) / of_nat (length scores)"

text \<open>
  The loop "Clause-specific recommendations" of \<open>_generate_recommendations\<close> over the
  items of \<open>clause_breakdown\<close>, in the order the keys were inserted.
\<close>

fun clause_specific_recommendations :: "(string \<times> int list) list \<Rightarrow> recommendation list" where
  "clause_specific_recommendations [] = []"
| "clause_specific_recommendations ((ctype, scores) # rest) =
     (if scores \<noteq> [] \<and> Max (set scores) \<ge> 8 then
        (if ctype = ''payment'' then [Rec_Payment]
         else if ctype = ''liability'' then [Rec_Liability]
         else if ctype = ''termination'' then [Rec_Termination]
         else [])
      else [])
     @ clause_specific_recommendations rest"

text \<open>
  The block "Specific recommendations based on risk factors" of
  \<open>_generate_recommendations\<close>, on the set \<open>unique_factors\<close>.
\<close>

definition factor_recommendations :: "string set \<Rightarrow> recommendation list" where
  "factor_recommendations unique_factors =
     (if \<exists>factor \<in> unique_factors. sublist ''unlimited liability'' (lower factor)
      then [Rec_Liability_Cap] else []) @
     (if \<exists>factor \<in> unique_factors. sublist ''immediate termination'' (lower factor)
      then [Rec_Cure_Period] else []) @
     (if \<exists>factor \<in> unique_factors. sublist ''one-sided'' (lower factor)
      then [Rec_Balanced] else []) @
     (if \<exists>factor \<in> unique_factors. sublist ''ambiguous'' (lower factor)
      then [Rec_Clarify] else [])"

text \<open>
  The \<open>try\<close> block of \<open>RiskAnalyzer._generate_recommendations\<close>; nothing in it raises,
  and its \<open>except\<close> branch returns \<open>[Rec_Unable]\<close>.
\<close>

definition generate_recommendations ::
  "string \<Rightarrow> string list \<Rightarrow> (string \<times> int list) list \<Rightarrow> recommendation list"
where
  "generate_recommendations overall factor_list breakdown =
     (let recs0 =
            (if overall = ''high'' then [Rec_Critical, Rec_Negotiate]
             else if overall = ''medium'' then [Rec_Caution, Rec_Focus]
             else [Rec_Manageable]);
          unique_factors = set factor_list;
          recs1 = recs0 @ factor_recommendations unique_factors;
          recs2 = recs1 @ clause_specific_recommendations breakdown;
          recs3 = (if length recs2 = 1 then recs2 @ [Rec_Understand, Rec_Keep_Copies] else recs2)
      in take 10 recs3)"

text \<open>One entry of \<open>top_risk_areas\<close>.\<close>

record risk_area =
  area :: string
  avg_risk_score :: rat
  max_risk_score :: int
  clause_count :: nat
  description :: string
  sample_clause :: string

definition risk_area_descriptions :: "(string \<times> string) list" where
  "risk_area_descriptions =
     [(''liability'', ''Defines your financial responsibility if something goes wrong''),
      (''termination'', ''Controls how and when the contract can be ended''),
      (''payment'', ''Governs payment obligations and potential penalties''),
      (''indemnification'', ''Requires you to protect the other party from certain losses''),
      (''dispute_resolution'', ''Determines how conflicts will be resolved''),
      (''obligations'', ''Specifies what you must do under the contract''),
      (''warranties'', ''Contains promises about performance or quality''),
      (''intellectual_property'', ''Governs ownership of ideas and creative work''),
      (''confidentiality'', ''Controls sharing of sensitive information''),
      (''force_majeure'', ''Addresses what happens during extraordinary circumstances'')]"

text \<open>\<open>RiskAnalyzer._get_risk_area_description\<close>\<close>

definition get_risk_area_description :: "string \<Rightarrow> string" where
  "get_risk_area_description ctype =
     (case map_of risk_area_descriptions ctype of
        Some d \<Rightarrow> d | None \<Rightarrow> ''Important contractual provision'')"

text \<open>The loop of \<open>_identify_top_risks\<close> over the items of \<open>clause_breakdown\<close>.\<close>

fun risk_areas_of :: "float_ops \<Rightarrow> (string \<times> int list) list \<Rightarrow> clause list \<Rightarrow> risk_area list" where
  "risk_areas_of fo [] cs = []"
| "risk_areas_of fo ((ctype, scores) # rest) cs =
     (if scores \<noteq> [] \<and> (average scores \<ge> 6 \<or> Max (set scores) \<ge> 8) then
        [\<lparr>area = title_case (replace_char CHR ''_'' CHR '' '' ctype),
          avg_risk_score = round1 fo (average scores),
          max_risk_score = Max (set scores),
          clause_count = length scores,
          description = get_risk_area_description ctype,
          sample_clause =
            (case find (\<lambda>c. clause_type c = ctype \<and> risk_score c = Max (set scores)) cs of
               Some highest_clause \<Rightarrow> simplified highest_clause
             | None \<Rightarrow> [])\<rparr>]
      else [])
     @ risk_areas_of fo rest cs"

text \<open>
  The \<open>try\<close> block of \<open>RiskAnalyzer._identify_top_risks\<close>: the areas sorted by their
  average, the highest first, areas of one average staying in their order; the first five.
\<close>

definition identify_top_risks :: "float_ops \<Rightarrow> (string \<times> int list) list \<Rightarrow> clause list \<Rightarrow> risk_area list" where
  "identify_top_risks fo breakdown cs =
     take 5 (sort_key (\<lambda>a. - avg_risk_score a) (risk_areas_of fo breakdown cs))"

text \<open>The \<open>try\<close> block of \<open>RiskAnalyzer._generate_risk_summary\<close>.\<close>

definition generate_risk_summary ::
  "float_ops \<Rightarrow> rat \<Rightarrow> nat \<Rightarrow> nat \<Rightarrow> (string \<times> int list) list \<Rightarrow> string"
where
  "generate_risk_summary fo avg_score high_risk_count n_clauses breakdown =
     (let parts1 =
            [if avg_score \<ge> 7 then ''This document presents HIGH risk''
             else if avg_score \<ge> 5 then ''This document presents MEDIUM risk''
             else ''This document presents LOW risk''];
          parts2 = parts1 @
            (if high_risk_count > 0
             then [str_nat high_risk_count @ '' out of '' @ str_nat n_clauses @ '' clauses ('' @
                   fmt1 fo (of_nat high_risk_count / of_nat n_clauses * 100) @
                   ''%) are high-risk'']
             else []);
          highest_risk_types =
            map (\<lambda>(ctype, scores). replace_char CHR ''_'' CHR '' '' ctype)
              (filter (\<lambda>(ctype, scores). scores \<noteq> [] \<and> Max (set scores) \<ge> 7) breakdown);
          parts3 = parts2 @
            (if highest_risk_types \<noteq> []
             then [''Highest risk areas: '' @ join '', '' highest_risk_types]
             else [])
      in join ''. '' parts3 @ ''.'')"

text \<open>
  The dictionary \<open>_calculate_risk_distribution\<close> returns: the three percentages and,
  under the key \<open>counts\<close> when it is there, the three counts.
\<close>

record risk_distribution_rec =
  low_pct :: rat
  medium_pct :: rat
  high_pct :: rat
  counts :: "(nat \<times> nat \<times> nat) option"

definition calculate_risk_distribution :: "float_ops \<Rightarrow> int list \<Rightarrow> risk_distribution_rec" where
  "calculate_risk_distribution fo risk_scores =
     (if risk_scores = [] then \<lparr>low_pct = 0, medium_pct = 0, high_pct = 0, counts = None\<rparr>
      else
        let low_count = length (filter (\<lambda>s. s < 4) risk_scores);
            medium_count = length (filter (\<lambda>s. 4 \<le> s \<and> s < 7) risk_scores);
            high_count = length (filter (\<lambda>s. s \<ge> 7) risk_scores);
            total = length risk_scores
        in \<lparr>low_pct = round1 fo (of_nat low_count / of_nat total * 100),
            medium_pct = round1 fo (of_nat medium_count / of_nat total * 100),
            high_pct = round1 fo (of_nat high_count / of_nat total * 100),
            counts = Some (low_count, medium_count, high_count)\<rparr>)"

text \<open>
  The dictionary \<open>assess_risk\<close> returns. Its keys \<open>risk_score\<close>, \<open>max_risk_score\<close> and
  \<open>risk_factors\<close> are the fields \<open>doc_risk_score\<close>, \<open>doc_max_risk_score\<close> and
  \<open>doc_risk_factors\<close>; the last is \<open>list(set(..))\<close>, a list in no fixed order, hence a
  set.
\<close>

record risk_assessment =
  overall_risk :: string
  doc_risk_score :: rat
  doc_max_risk_score :: int
  high_risk_clauses :: nat
  total_clauses :: nat
  risk_summary :: string
  top_risk_areas :: "risk_area list"
  doc_risk_factors :: "string set"
  clause_breakdown :: "(string \<times> int list) list"
  recommendations :: "recommendation list"
  risk_distribution :: risk_distribution_rec

text \<open>\<open>RiskAnalyzer._get_empty_risk_assessment\<close>\<close>

definition get_empty_risk_assessment :: risk_assessment where
  "get_empty_risk_assessment =
     \<lparr>overall_risk = ''unknown'',
      doc_risk_score = 0,
      doc_max_risk_score = 0,
      high_risk_clauses = 0,
      total_clauses = 0,
      risk_summary = ''No clauses available for risk analysis'',
      top_risk_areas = [],
      doc_risk_factors = {},
      clause_breakdown = [],
      recommendations = [Rec_Analysis_Required],
      risk_distribution = \<lparr>low_pct = 0, medium_pct = 0, high_pct = 0, counts = None\<rparr>\<rparr>"

text \<open>
  \<open>clause_risk_breakdown[clause_type].append(score)\<close>, the key being added at the end
  when it is new.
\<close>

definition breakdown_append :: "string \<Rightarrow> int \<Rightarrow> (string \<times> int list) list \<Rightarrow> (string \<times> int list) list" where
  "breakdown_append ctype sc breakdown =
     (if ctype \<in> set (map fst breakdown)
      then map (\<lambda>(k, v). if k = ctype then (k, v @ [sc]) else (k, v)) breakdown
      else breakdown @ [(ctype, [sc])])"

text \<open>
  The loop "Analyze each clause" of \<open>assess_risk\<close>, on the three collections it fills:
  \<open>individual_risks\<close>, \<open>risk_factors\<close> and \<open>clause_risk_breakdown\<close>.
\<close>

fun collect_risks ::
  "clause list \<Rightarrow> int list \<times> string list \<times> (string \<times> int list) list
     \<Rightarrow> int list \<times> string list \<times> (string \<times> int list) list"
where
  "collect_risks [] st = st"
| "collect_risks (c # cs) (individual_risks, factor_list, breakdown) =
     (let clause_risk = analyze_clause_risk c
      in collect_risks cs
           (individual_risks @ [score clause_risk],
            factor_list @ factors clause_risk,
            breakdown_append (clause_type c) (score clause_risk) breakdown))"

text \<open>
  \<open>RiskAnalyzer.assess_risk\<close>. Nothing in its \<open>try\<close> block raises on a list of clause
  records; its \<open>except\<close> branch returns \<open>get_empty_risk_assessment\<close>.
\<close>

definition assess_risk :: "float_ops \<Rightarrow> clause list \<Rightarrow> risk_assessment" where
  "assess_risk fo cs =
     (if cs = [] then get_empty_risk_assessment
      else
        case collect_risks cs ([], [], []) of (individual_risks, factor_list, breakdown) \<Rightarrow>
          let avg_risk_score = average individual_risks;
              max_score = Max (set individual_risks);
              high_risk_count = length (filter (\<lambda>s. s \<ge> 7) individual_risks);
              overall = determine_overall_risk avg_risk_score max_score high_risk_count
          in \<lparr>overall_risk = overall,
              doc_risk_score = round1 fo avg_risk_score,
              doc_max_risk_score = max_score,
              high_risk_clauses = high_risk_count,
              total_clauses = length cs,
              risk_summary =
                generate_risk_summary fo avg_risk_score high_risk_count (length cs) breakdown,
              top_risk_areas = identify_top_risks fo breakdown cs,
              doc_risk_factors = set factor_list,
              clause_breakdown = breakdown,
              recommendations = generate_recommendations overall factor_list breakdown,
              risk_distribution = calculate_risk_distribution fo individual_risks\<rparr>)"

section \<open>Conditions the properties name\<close>

text \<open>
  Some pattern of the category \<open>k\<close> of \<open>clause_patterns\<close> is found in the text.
\<close>

definition category_matches :: "string \<Rightarrow> string \<Rightarrow> bool" where
  "category_matches k text_lower =
     (case map_of clause_patterns k of
        None \<Rightarrow> False
      | Some patterns \<Rightarrow> list_ex (\<lambda>pattern. re_found pattern text_lower) patterns)"

text \<open>The four details of \<open>_simplify_clause\<close>, each with its own condition.\<close>

definition template :: "string \<Rightarrow> string" where
  "template k =
     (case map_of simplification_templates k of
        Some t \<Rightarrow> t | None \<Rightarrow> ''This is a standard contract provision.'')"

definition notice_detail :: "string \<Rightarrow> string" where
  "notice_detail clause_text =
     (if sublist ''notice'' (lower clause_text) then
        (case re_search notice_pattern (lower clause_text) of
           Some (m, days # _) \<Rightarrow> '' You need to give '' @ days @ '' days notice.''
         | _ \<Rightarrow> [])
      else [])"

definition cause_detail :: "string \<Rightarrow> string" where
  "cause_detail clause_text =
     (if sublist ''cause'' (lower clause_text) \<and> sublist ''without'' (lower clause_text)
      then '' Either party can terminate without giving a specific reason.'' else [])"

definition amount_detail :: "string \<Rightarrow> string" where
  "amount_detail clause_text =
     (case re_search amount_pattern clause_text of
        Some (m, _) \<Rightarrow> '' The amount involved is '' @ m @ ''.''
      | None \<Rightarrow> [])"

definition late_detail :: "string \<Rightarrow> string" where
  "late_detail clause_text =
     (if sublist ''late'' (lower clause_text) \<and> sublist ''fee'' (lower clause_text)
      then '' There are penalties for late payment.'' else [])"


text \<open>
  Appending \<open>q\<close> to a text can complete an occurrence of \<open>w\<close>: \<open>w\<close> occurs in \<open>q\<close>,
  or \<open>q\<close> begins with the rest of \<open>w\<close> after some of its characters.
\<close>

definition can_complete :: "string \<Rightarrow> string \<Rightarrow> bool" where
  "can_complete w q = (sublist w q \<or> list_ex (\<lambda>k. prefix (drop k w) q) [1..<length w])"


section \<open>Example inputs\<close>

text \<open>A text of two numbered clauses, the first of 101 characters.\<close>

definition numbered_text :: string where
  "numbered_text = nl @ ''1. '' @ replicate 101 CHR ''a'' @ nl @ ''2. short''"


text \<open>A clause of 108 characters on one line that names a penalty.\<close>

definition penalty_text :: string where
  "penalty_text = replicate 100 CHR ''x'' @ '' penalty''"

text \<open>A clause of 520 characters that names unlimited liability after the 500th.\<close>

definition long_liability_text :: string where
  "long_liability_text = replicate 500 CHR ''x'' @ '' unlimited liability''"

text \<open>The clause record with a content and a type, its other fields empty.\<close>

definition clause_of :: "string \<Rightarrow> string \<Rightarrow> clause" where
  "clause_of txt k =
     \<lparr>clause_id = [], title = [], content = txt, simplified = [], risk_level = [],
      risk_score = 0, risk_factors = [], clause_type = k\<rparr>"

text \<open>Float operations for closed examples: no rounding, no text.\<close>

definition plain_ops :: float_ops where
  "plain_ops = \<lparr>round1 = (\<lambda>x. x), fmt1 = (\<lambda>x. [])\<rparr>"


text \<open>A clause with the triggers of termination and of payment.\<close>

definition both_triggers_text :: string where
  "both_triggers_text = ''Termination without cause: a payment of $5,000 is due with 30 days notice.''"


text \<open>
  Four documents of one clause: a liability clause that names unlimited liability, two
  clauses with a one-sided phrase, and a plain confidentiality clause.
\<close>

definition unlimited_liability_clauses :: "clause list" where
  "unlimited_liability_clauses = [clause_of ''Unlimited liability applies.'' ''liability'']"

definition one_sided_clauses :: "clause list" where
  "one_sided_clauses = [clause_of ''We may disclose the terms.'' ''confidentiality'']"

definition delay_clauses :: "clause list" where
  "delay_clauses = [clause_of ''We may delay delivery.'' ''force_majeure'']"

definition confidentiality_clauses :: "clause list" where
  "confidentiality_clauses = [clause_of ''Each party keeps the terms secret.'' ''confidentiality'']"


text \<open>
  A content that ends one letter short of the protective term "mutual liability
  limitation", after the high-risk phrase "no refund".
\<close>

definition almost_protective :: string where
  "almost_protective = ''no refund mutual liability limitatio''"


section \<open>Segmentation\<close>

text \<open>
  A match of a separator takes at least one character, so every match is a separator
  for \<open>re_split\<close>, as it is for \<open>re.split\<close>.
\<close>

lemma rep_rests_length:
  "s' \<in> set (rep_rests n a s) \<Longrightarrow> length s' \<le> length s"
proof (induction s arbitrary: n)
  case Nil
  then show ?case by (simp split: if_splits)
next
  case (Cons c cs)
  show ?case
  proof (cases "atom_ok a c")
    case True
    with Cons.prems have "s' \<in> set (rep_rests (n - 1) a cs) \<or> s' = c # cs"
      by (auto split: if_splits)
    then show ?thesis
      using Cons.IH[of "n - 1"] by auto
  next
    case False
    with Cons.prems show ?thesis by (simp split: if_splits)
  qed
qed

lemma rx_run_length:
  "(g, s') \<in> set (rx_run p s) \<Longrightarrow> length s' \<le> length s"
proof (induction p arbitrary: g s' s)
  case (Lit w)
  then show ?case by (simp split: if_splits)
next
  case (At a)
  then show ?case by (auto split: list.splits if_splits)
next
  case (Cat p1 p2)
  from Cat.prems obtain g1 s1 g2 where "(g1, s1) \<in> set (rx_run p1 s)" "(g2, s') \<in> set (rx_run p2 s1)"
    by auto
  then show ?case
    using Cat.IH(1)[of g1 s1 s] Cat.IH(2)[of g2 s' s1] by simp
next
  case (Alt p1 p2)
  then show ?case by auto
next
  case (Opt p)
  then show ?case by auto
next
  case (Rep n a)
  then show ?case by (auto dest: rep_rests_length)
next
  case (Grp p)
  then show ?case by auto
qed

lemma separators_consume:
  assumes "p \<in> set clause_separators" and "(g, s') \<in> set (rx_run p s)"
  shows "length s' < length s"
proof -
  from assms(1) obtain r where p: "p = Cat (Lit nl) r"
    by (auto simp: clause_separators_def seq_def)
  from assms(2) obtain g2 where "prefix nl s" and "(g2, s') \<in> set (rx_run r (drop (length nl) s))"
    unfolding p by (auto split: if_splits)
  then have "length s' \<le> length s - 1" and "s \<noteq> []"
    using rx_run_length[of g2 s' r "drop (length nl) s"] by (auto simp: nl_def)
  then show ?thesis by (cases s) simp_all
qed

lemma length_strip_le: "length (strip s) \<le> length s"
proof -
  have "length (dropWhile isspace (rev (dropWhile isspace s))) \<le> length (rev (dropWhile isspace s))"
    by (rule length_dropWhile_le)
  also have "\<dots> \<le> length s"
    by (simp add: length_dropWhile_le)
  finally show ?thesis
    by (simp add: strip_def)
qed

lemma re_split_acc_length:
  "\<forall>s \<in> set (re_split_acc p acc t). length s \<le> length acc + length t"
proof (induction p acc t rule: re_split_acc.induct)
  case (1 p acc)
  then show ?case by simp
next
  case (2 p acc c cs)
  show ?case
  proof (cases "rx_run p (c # cs)")
    case Nil
    with 2 show ?thesis by simp
  next
    case (Cons m ms)
    obtain g s' where m: "m = (g, s')" by (cases m)
    show ?thesis
    proof (cases "length s' < length (c # cs)")
      case True
      with 2(2)[OF Cons m[symmetric]] Cons m show ?thesis by force
    next
      case False
      with 2(3)[OF Cons m[symmetric]] Cons m show ?thesis by simp
    qed
  qed
qed

lemma split_pass_length:
  assumes "\<forall>s \<in> set sections. length s \<le> n"
  shows "\<forall>s \<in> set (split_pass p sections). length s \<le> n"
proof
  fix s assume "s \<in> set (split_pass p sections)"
  then obtain sec q where sec: "sec \<in> set sections" and q: "q \<in> set (re_split p sec)" and s: "s = strip q"
    by (auto simp: split_pass_def)
  from q have "length q \<le> length sec"
    using re_split_acc_length[of p "[]" sec] by (simp add: re_split_def)
  moreover have "length s \<le> length q" unfolding s by (rule length_strip_le)
  ultimately show "length s \<le> n" using assms sec by force
qed

lemma fold_split_pass_length:
  "\<forall>s \<in> set sections. length s \<le> n \<Longrightarrow> \<forall>s \<in> set (fold split_pass ps sections). length s \<le> n"
proof (induction ps arbitrary: sections)
  case Nil
  then show ?case by simp
next
  case (Cons p ps)
  from Cons.prems have "\<forall>s \<in> set (split_pass p sections). length s \<le> n"
    by (rule split_pass_length)
  then show ?case using Cons.IH by simp
qed

lemma short_text_no_clause:
  assumes "length t \<le> 100"
  shows "split_into_clauses t = []"
proof -
  have "\<forall>s \<in> set (fold split_pass clause_separators [t]). length s \<le> 100"
    by (rule fold_split_pass_length) (simp add: assms)
  then have "filter (\<lambda>s. length s > 100) (fold split_pass clause_separators [t]) = []"
    by (auto simp: filter_empty_conv)
  then show ?thesis by (simp add: split_into_clauses_def)
qed

lemma split_on2_length:
  "s \<in> set (split_on2 a b acc t) \<Longrightarrow> length s \<le> length acc + length t"
proof (induction a b acc t arbitrary: s rule: split_on2.induct)
  case (1 a b acc x y t)
  show ?case
  proof (cases "x = a \<and> y = b")
    case True
    with 1(3) have "s = rev acc \<or> s \<in> set (split_on2 a b [] t)" by simp
    then show ?thesis
    proof
      assume "s = rev acc" then show ?thesis by simp
    next
      assume "s \<in> set (split_on2 a b [] t)"
      from 1(1)[OF True this] show ?thesis by simp
    qed
  next
    case False
    with 1(3) have "s \<in> set (split_on2 a b (x # acc) (y # t))" by auto
    from 1(2)[OF False this] show ?thesis by simp
  qed
next
  case (2 a b acc x)
  then show ?case by simp
next
  case (3 a b acc)
  then show ?case by simp
qed

text \<open>
  C3, as the code has it: for every text, \<open>split_into_clauses\<close> returns at most 20
  clauses, each longer than 100 characters, and none at all for a text of at most 100
  characters; the blank-line fallback of its \<open>except\<close> branch returns at most 10, each
  longer than 100 characters, and none for a text of at most 100 characters. Both are
  total functions.
\<close>

theorem split_into_clauses_bounds:
  "length (split_into_clauses t) \<le> 20 \<and>
   (\<forall>s \<in> set (split_into_clauses t). 100 < length s) \<and>
   (length t \<le> 100 \<longrightarrow> split_into_clauses t = []) \<and>
   length (split_into_clauses_fallback t) \<le> 10 \<and>
   (\<forall>s \<in> set (split_into_clauses_fallback t). 100 < length s) \<and>
   (length t \<le> 100 \<longrightarrow> split_into_clauses_fallback t = [])"
proof -
  have a: "length (split_into_clauses t) \<le> 20"
    by (simp add: split_into_clauses_def)
  have b: "\<forall>s \<in> set (split_into_clauses t). 100 < length s"
  proof
    fix s assume "s \<in> set (split_into_clauses t)"
    then have "s \<in> set (filter (\<lambda>s. length s > 100) (fold split_pass clause_separators [t]))"
      unfolding split_into_clauses_def Let_def by (rule in_set_takeD)
    then show "100 < length s" by simp
  qed
  have c: "length t \<le> 100 \<longrightarrow> split_into_clauses t = []"
    using short_text_no_clause by blast
  have d: "length (split_into_clauses_fallback t) \<le> 10"
    by (simp add: split_into_clauses_fallback_def)
  have e: "\<forall>s \<in> set (split_into_clauses_fallback t). 100 < length s"
  proof
    fix s assume "s \<in> set (split_into_clauses_fallback t)"
    then have "s \<in> set (map strip (filter (\<lambda>p. length (strip p) > 100)
       (split_on2 CHR 0x0A CHR 0x0A [] t)))"
      unfolding split_into_clauses_fallback_def by (rule in_set_takeD)
    then show "100 < length s" by auto
  qed
  have f: "length t \<le> 100 \<longrightarrow> split_into_clauses_fallback t = []"
  proof
    assume t: "length t \<le> 100"
    have "\<not> length (strip p) > 100" if "p \<in> set (split_on2 CHR 0x0A CHR 0x0A [] t)" for p
      using split_on2_length[OF that] length_strip_le[of p] t by simp
    then have "filter (\<lambda>p. length (strip p) > 100) (split_on2 CHR 0x0A CHR 0x0A [] t) = []"
      by (simp add: filter_empty_conv)
    then show "split_into_clauses_fallback t = []"
      by (simp add: split_into_clauses_fallback_def)
  qed
  from a b c d e f show ?thesis by blast
qed

theorem split_into_clauses_bounds_witness:
  "split_into_clauses numbered_text = [replicate 101 CHR ''a''] \<and>
   replicate 101 CHR ''a'' \<in> set (split_into_clauses numbered_text) \<and>
   split_into_clauses_fallback numbered_text = [''1. '' @ replicate 101 CHR ''a'' @ nl @ ''2. short''] \<and>
   100 < length (replicate 101 CHR ''a'') \<and>
   100 < length (''1. '' @ replicate 101 CHR ''a'' @ nl @ ''2. short'') \<and>
   length ''abc'' \<le> 100 \<and> split_into_clauses ''abc'' = [] \<and>
   split_into_clauses_fallback ''abc'' = []"
proof -
  have a: "split_into_clauses numbered_text = [replicate 101 CHR ''a'']"
    by code_simp
  have b: "split_into_clauses_fallback numbered_text =
      [''1. '' @ replicate 101 CHR ''a'' @ nl @ ''2. short'']"
    by code_simp
  from split_into_clauses_bounds[of numbered_text] split_into_clauses_bounds[of "''abc''"] a b
  show ?thesis by simp
qed

text \<open>
  C3 as stated fails: the text \<open>abc\<close> is not empty and has no clause.
\<close>

theorem segment_nonempty_counterexample:
  "''abc'' \<noteq> [] \<and> split_into_clauses ''abc'' = []"
  by code_simp


section \<open>Evaluation of \<open>lower\<close>\<close>

text \<open>The definition of \<open>lower_char\<close> on the eight bits of a character, as a code equation.\<close>

lemma lower_char_bits [code]:
  "lower_char (Char b0 b1 b2 b3 b4 b5 b6 b7) =
     (if b6 \<and> \<not> b5 \<and>
         ((\<not> b7 \<and> (b0 \<or> b1 \<or> b2 \<or> b3 \<or> b4) \<and> \<not> (b4 \<and> b3 \<and> (b2 \<or> (b1 \<and> b0)))) \<or>
          (b7 \<and> \<not> (b4 \<and> b2 \<and> b1 \<and> b0)))
      then Char b0 b1 b2 b3 b4 True b6 b7
      else Char b0 b1 b2 b3 b4 b5 b6 b7)"
  by (cases b0; cases b1; cases b2; cases b3; cases b4; cases b5; cases b6; cases b7;
      simp add: lower_char_def char_of_def bit_0)

section \<open>Texts that begin with a run of one letter\<close>

text \<open>
  No term, word or pattern of the tables begins with the letter \<open>x\<close>, so a run of
  it before a text changes no test on the text.
\<close>

lemma sublist_pad:
  assumes "w \<noteq> []" and "hd w \<noteq> c"
  shows "sublist w (replicate n c @ s) \<longleftrightarrow> sublist w s"
proof (induction n)
  case 0
  show ?case by simp
next
  case (Suc n)
  from assms obtain a w' where w: "w = a # w'" and ac: "a \<noteq> c"
    by (cases w) auto
  have "\<not> prefix w (c # replicate n c @ s)"
    using ac by (simp add: w)
  then show ?case
    using Suc by (simp add: sublist_Cons_right)
qed

lemma lower_pad:
  assumes "lower_char c = c"
  shows "lower (replicate n c @ s) = replicate n c @ lower s"
  using assms by (simp add: lower_def)

lemma lower_char_x: "lower_char CHR ''x'' = CHR ''x''"
  by code_simp

lemma add_hits_pad:
  assumes "\<forall>t \<in> set ts. lower t \<noteq> [] \<and> hd (lower t) \<noteq> c"
  shows "add_hits w msg (replicate n c @ s) ts st = add_hits w msg s ts st"
  using assms
proof (induction ts arbitrary: st)
  case Nil
  show ?case by simp
next
  case (Cons t ts)
  obtain sc fs where st: "st = (sc, fs)" by (cases st)
  from Cons.prems have "sublist (lower t) (replicate n c @ s) \<longleftrightarrow> sublist (lower t) s"
    by (intro sublist_pad) auto
  with Cons show ?case by (simp add: st)
qed

lemma add_table_hits_pad:
  assumes "\<forall>t \<in> set (concat (map snd tbl)). lower t \<noteq> [] \<and> hd (lower t) \<noteq> c"
  shows "add_table_hits w msg (replicate n c @ s) tbl st = add_table_hits w msg s tbl st"
  using assms
proof (induction tbl arbitrary: st)
  case Nil
  show ?case by simp
next
  case (Cons e tbl)
  obtain k ts where e: "e = (k, ts)" by (cases e)
  from Cons.prems have "add_hits w msg (replicate n c @ s) ts st = add_hits w msg s ts st"
    by (intro add_hits_pad) (auto simp: e)
  with Cons show ?case by (simp add: e)
qed

lemma re_search_pad:
  assumes "\<And>t. rx_run p (c # t) = []"
  shows "re_search p (replicate n c @ s) = re_search p s"
  by (induction n) (simp_all add: assms)

lemma re_found_pad:
  assumes "\<And>t. rx_run p (c # t) = []"
  shows "re_found p (replicate n c @ s) = re_found p s"
  by (simp add: re_found_def re_search_pad[OF assms])

lemma first_pattern_type_pad:
  assumes "\<And>p t. p \<in> set (concat (map snd tbl)) \<Longrightarrow> rx_run p (c # t) = []"
  shows "first_pattern_type tbl (replicate n c @ s) = first_pattern_type tbl s"
  using assms
proof (induction tbl)
  case Nil
  show ?case by simp
next
  case (Cons e tbl)
  obtain k ps where e: "e = (k, ps)" by (cases e)
  have "list_ex (\<lambda>p. re_found p (replicate n c @ s)) ps = list_ex (\<lambda>p. re_found p s) ps"
    unfolding list_ex_iff
    by (rule bex_cong[OF refl]) (rule re_found_pad, rule Cons.prems, simp add: e)
  moreover have "first_pattern_type tbl (replicate n c @ s) = first_pattern_type tbl s"
    by (rule Cons.IH) (rule Cons.prems, simp)
  ultimately show ?case by (simp add: e)
qed

lemma seq_Cons: "seq (r # rs) = Cat r (seq rs)"
  by (simp add: seq_def)

lemma clause_patterns_not_x:
  "p \<in> set (concat (map snd clause_patterns)) \<Longrightarrow> rx_run p (CHR ''x'' # t) = []"
  by (auto simp: clause_patterns_def seq_Cons)


lemma list_ex_sublist_pad:
  assumes "list_all (\<lambda>t. t \<noteq> [] \<and> hd t \<noteq> c) ts"
  shows "list_ex (\<lambda>t. sublist t (replicate n c @ s)) ts = list_ex (\<lambda>t. sublist t s) ts"
  unfolding list_ex_iff
  by (rule bex_cong[OF refl]) (use assms in \<open>auto simp: list_all_iff intro!: sublist_pad\<close>)

lemma filter_sublist_pad:
  assumes "list_all (\<lambda>t. t \<noteq> [] \<and> hd t \<noteq> c) ts"
  shows "filter (\<lambda>t. sublist t (replicate n c @ s)) ts = filter (\<lambda>t. sublist t s) ts"
  by (rule filter_cong[OF refl]) (use assms in \<open>auto simp: list_all_iff intro!: sublist_pad\<close>)

lemma first_pattern_type_x:
  "first_pattern_type clause_patterns (replicate n CHR ''x'' @ s) =
   first_pattern_type clause_patterns s"
  by (rule first_pattern_type_pad) (rule clause_patterns_not_x)

lemma identify_clause_type_pad:
  "identify_clause_type (replicate n CHR ''x'' @ s) = identify_clause_type s"
proof -
  have a: "list_all (\<lambda>t. t \<noteq> [] \<and> hd t \<noteq> CHR ''x'') [''shall'', ''will'', ''must'', ''required'']"
    and b: "list_all (\<lambda>t. t \<noteq> [] \<and> hd t \<noteq> CHR ''x'') [''may'', ''can'', ''permitted'', ''allowed'']"
    by code_simp+
  show ?thesis
    unfolding identify_clause_type_def Let_def lower_pad[OF lower_char_x]
      first_pattern_type_x list_ex_sublist_pad[OF a] list_ex_sublist_pad[OF b]
    by (rule refl)
qed

lemma keywords_not_x:
  "\<forall>t \<in> set high_risk_keywords. lower t \<noteq> [] \<and> hd (lower t) \<noteq> CHR ''x''"
  "\<forall>t \<in> set medium_risk_keywords. lower t \<noteq> [] \<and> hd (lower t) \<noteq> CHR ''x''"
proof -
  have "list_all (\<lambda>t. lower t \<noteq> [] \<and> hd (lower t) \<noteq> CHR ''x'') high_risk_keywords"
    by code_simp
  then show "\<forall>t \<in> set high_risk_keywords. lower t \<noteq> [] \<and> hd (lower t) \<noteq> CHR ''x''"
    by (simp add: list_all_iff)
  have "list_all (\<lambda>t. lower t \<noteq> [] \<and> hd (lower t) \<noteq> CHR ''x'') medium_risk_keywords"
    by code_simp
  then show "\<forall>t \<in> set medium_risk_keywords. lower t \<noteq> [] \<and> hd (lower t) \<noteq> CHR ''x''"
    by (simp add: list_all_iff)
qed

lemma clause_specific_risk_pad:
  "clause_specific_risk k (replicate n CHR ''x'' @ s) st = clause_specific_risk k s st"
  by (simp add: clause_specific_risk_def sublist_pad split: prod.split)

lemma assess_clause_raw_pad:
  "assess_clause_raw (replicate n CHR ''x'' @ s) k = assess_clause_raw s k"
  by (simp add: assess_clause_raw_def Let_def lower_pad[OF lower_char_x]
        add_hits_pad[OF keywords_not_x(1)] add_hits_pad[OF keywords_not_x(2)]
        clause_specific_risk_pad)

lemma assess_clause_risk_pad:
  "assess_clause_risk (replicate n CHR ''x'' @ s) k = assess_clause_risk s k"
  by (simp add: assess_clause_risk_def assess_clause_raw_pad)

lemma detail_patterns_not_x:
  "rx_run notice_pattern (CHR ''x'' # t) = []"
  "rx_run amount_pattern (CHR ''x'' # t) = []"
  by (simp_all add: notice_pattern_def amount_pattern_def seq_Cons)

lemma detail_search_pad:
  "re_search notice_pattern (replicate n CHR ''x'' @ s) = re_search notice_pattern s"
  "re_search amount_pattern (replicate n CHR ''x'' @ s) = re_search amount_pattern s"
  by (rule re_search_pad, rule detail_patterns_not_x)+

lemma simplify_clause_pad:
  "simplify_clause (replicate n CHR ''x'' @ s) k = simplify_clause s k"
  unfolding simplify_clause_def Let_def lower_pad[OF lower_char_x] detail_search_pad
  by (simp add: sublist_pad)


lemma risk_tables_not_x:
  "\<forall>t \<in> set (concat (map snd high_risk_terms)). lower t \<noteq> [] \<and> hd (lower t) \<noteq> CHR ''x''"
  "\<forall>t \<in> set (concat (map snd medium_risk_terms)). lower t \<noteq> [] \<and> hd (lower t) \<noteq> CHR ''x''"
  "\<forall>t \<in> set (concat (map snd low_risk_terms)). lower t \<noteq> [] \<and> hd (lower t) \<noteq> CHR ''x''"
proof -
  have "list_all (\<lambda>t. lower t \<noteq> [] \<and> hd (lower t) \<noteq> CHR ''x'') (concat (map snd high_risk_terms))"
    by code_simp
  then show "\<forall>t \<in> set (concat (map snd high_risk_terms)). lower t \<noteq> [] \<and> hd (lower t) \<noteq> CHR ''x''"
    unfolding list_all_iff .
  have "list_all (\<lambda>t. lower t \<noteq> [] \<and> hd (lower t) \<noteq> CHR ''x'') (concat (map snd medium_risk_terms))"
    by code_simp
  then show "\<forall>t \<in> set (concat (map snd medium_risk_terms)). lower t \<noteq> [] \<and> hd (lower t) \<noteq> CHR ''x''"
    unfolding list_all_iff .
  have "list_all (\<lambda>t. lower t \<noteq> [] \<and> hd (lower t) \<noteq> CHR ''x'') (concat (map snd low_risk_terms))"
    by code_simp
  then show "\<forall>t \<in> set (concat (map snd low_risk_terms)). lower t \<noteq> [] \<and> hd (lower t) \<noteq> CHR ''x''"
    unfolding list_all_iff .
qed

lemma additional_terms_not_x:
  "list_all (\<lambda>t. t \<noteq> [] \<and> hd t \<noteq> CHR ''x'') ambiguous_terms"
  "list_all (\<lambda>t. t \<noteq> [] \<and> hd t \<noteq> CHR ''x'') one_sided_indicators"
  "list_all (\<lambda>t. t \<noteq> [] \<and> hd t \<noteq> CHR ''x'') time_pressure_terms"
  by code_simp+

lemma broad_scope_pad:
  "filter (\<lambda>t. sublist ('' '' @ t @ '' '') (replicate n CHR ''x'' @ s)) ts =
   filter (\<lambda>t. sublist ('' '' @ t @ '' '') s) ts"
  by (rule filter_cong[OF refl]) (simp add: sublist_pad)

lemma check_additional_risk_factors_pad:
  "check_additional_risk_factors (replicate n CHR ''x'' @ s) sc =
   check_additional_risk_factors s sc"
  unfolding check_additional_risk_factors_def
    filter_sublist_pad[OF additional_terms_not_x(1)]
    list_ex_sublist_pad[OF additional_terms_not_x(2)]
    list_ex_sublist_pad[OF additional_terms_not_x(3)]
    broad_scope_pad
  by (rule refl)

lemma analyze_clause_raw_pad:
  "analyze_clause_raw (c\<lparr>content := replicate n CHR ''x'' @ s\<rparr>) =
   analyze_clause_raw (c\<lparr>content := s\<rparr>)"
  by (simp add: analyze_clause_raw_def Let_def lower_pad[OF lower_char_x]
        add_table_hits_pad[OF risk_tables_not_x(1)] add_table_hits_pad[OF risk_tables_not_x(2)]
        add_table_hits_pad[OF risk_tables_not_x(3)] check_additional_risk_factors_pad)

lemma analyze_clause_risk_pad:
  "analyze_clause_risk (c\<lparr>content := replicate n CHR ''x'' @ s\<rparr>) =
   analyze_clause_risk (c\<lparr>content := s\<rparr>)"
  by (simp add: analyze_clause_risk_def analyze_clause_raw_pad)

section \<open>Texts of one line\<close>

lemma separators_need_newline:
  "p \<in> set clause_separators \<Longrightarrow> c \<noteq> CHR 0x0A \<Longrightarrow> rx_run p (c # t) = []"
  by (auto simp: clause_separators_def seq_Cons nl_def)

lemma re_split_acc_no_match:
  assumes "\<And>c t. c \<in> set s \<Longrightarrow> rx_run p (c # t) = []"
  shows "re_split_acc p acc s = [rev acc @ s]"
  using assms by (induction s arbitrary: acc) simp_all

lemma strip_id:
  assumes "s \<noteq> []" and "\<not> isspace (hd s)" and "\<not> isspace (last s)"
  shows "strip s = s"
proof -
  from assms have "dropWhile isspace s = s"
    by (cases s) simp_all
  moreover from assms have "dropWhile isspace (rev s) = rev s"
    by (cases "rev s") (simp_all add: hd_rev)
  ultimately show ?thesis by (simp add: strip_def)
qed

lemma split_pass_one_line:
  assumes "p \<in> set clause_separators" and "CHR 0x0A \<notin> set s"
    and "s \<noteq> []" and "\<not> isspace (hd s)" and "\<not> isspace (last s)"
  shows "split_pass p [s] = [s]"
proof -
  have "re_split p s = [s]"
    unfolding re_split_def
    using re_split_acc_no_match[of s p "[]"] separators_need_newline[OF assms(1)] assms(2)
    by (metis append_Nil rev.simps(1))
  then show ?thesis
    using strip_id[OF assms(3-5)] assms(3) by (simp add: split_pass_def)
qed

lemma fold_split_pass_one_line:
  assumes "set ps \<subseteq> set clause_separators" and "CHR 0x0A \<notin> set s"
    and "s \<noteq> []" and "\<not> isspace (hd s)" and "\<not> isspace (last s)"
  shows "fold split_pass ps [s] = [s]"
  using assms(1)
proof (induction ps)
  case Nil
  show ?case by simp
next
  case (Cons p ps)
  then have "split_pass p [s] = [s]"
    by (intro split_pass_one_line assms) simp
  with Cons show ?case by simp
qed

lemma split_into_clauses_one_line:
  assumes "CHR 0x0A \<notin> set s" and "s \<noteq> []" and "\<not> isspace (hd s)" and "\<not> isspace (last s)"
  shows "split_into_clauses s = (if length s > 100 then [s] else [])"
  using fold_split_pass_one_line[OF subset_refl assms]
  by (simp add: split_into_clauses_def)

lemma clauses_analyze_document:
  "clauses (analyze_document now text filename) =
   map (\<lambda>(i, section). analyze_clause section i)
     (filter (\<lambda>(i, section). length (strip section) > 50)
        (enumerate 0 (split_into_clauses text)))"
  by (simp add: analyze_document_def Let_def)

lemma clauses_one_line:
  assumes "CHR 0x0A \<notin> set s" and "s \<noteq> []" and "\<not> isspace (hd s)" and "\<not> isspace (last s)"
    and "length s > 100"
  shows "clauses (analyze_document now s filename) = [analyze_clause s 0]"
  using assms
  by (simp add: clauses_analyze_document split_into_clauses_one_line strip_id)


section \<open>The clause records of an analysis\<close>

lemma analyze_clause_fields:
  "clause_type (analyze_clause t i) = identify_clause_type t"
  "risk_score (analyze_clause t i) = score (assess_clause_risk t (identify_clause_type t))"
  "risk_level (analyze_clause t i) = level (assess_clause_risk t (identify_clause_type t))"
  "content (analyze_clause t i) = (if length t > 500 then take 500 t @ ''...'' else t)"
  "simplified (analyze_clause t i) = simplify_clause t (identify_clause_type t)"
  by (simp_all add: analyze_clause_def Let_def)

lemma analyze_clause_risk_cong:
  assumes "content c = content c'" and "clause_type c = clause_type c'"
  shows "analyze_clause_risk c = analyze_clause_risk c'"
  using assms by (simp add: analyze_clause_risk_def analyze_clause_raw_def)

lemma analyze_clause_risk_clause_of:
  "analyze_clause_risk c = analyze_clause_risk (clause_of (content c) (clause_type c))"
  by (rule analyze_clause_risk_cong) (simp_all add: clause_of_def)

lemma clause_of_pad:
  "analyze_clause_risk (clause_of (replicate n CHR ''x'' @ s) k) =
   analyze_clause_risk (clause_of s k)"
  using analyze_clause_risk_pad[where c = "clause_of [] k" and n = n and s = s]
  by (simp add: clause_of_def)

lemma not_space_x: "\<not> isspace CHR ''x''" "\<not> isspace CHR ''y''"
  by code_simp+

lemma penalty_text_clauses:
  "clauses (analyze_document now penalty_text filename) = [analyze_clause penalty_text 0]"
  by (rule clauses_one_line) (simp_all add: penalty_text_def not_space_x)

lemma penalty_text_score:
  "risk_score (analyze_clause penalty_text 0) = 7"
  "risk_level (analyze_clause penalty_text 0) = ''medium''"
proof -
  have k: "identify_clause_type '' penalty'' = ''general''"
    by code_simp
  have s: "score (assess_clause_risk '' penalty'' ''general'') = 7"
    and l: "level (assess_clause_risk '' penalty'' ''general'') = ''medium''"
    by code_simp+
  show "risk_score (analyze_clause penalty_text 0) = 7"
    by (simp add: analyze_clause_fields penalty_text_def identify_clause_type_pad
          assess_clause_risk_pad k s)
  show "risk_level (analyze_clause penalty_text 0) = ''medium''"
    by (simp add: analyze_clause_fields penalty_text_def identify_clause_type_pad
          assess_clause_risk_pad k l)
qed

text \<open>
  C2 as stated fails: the one clause of \<open>penalty_text\<close> is stored with score 7 and
  level medium, and the thresholds of the claim make 7 high.
\<close>

theorem risk_level_counterexample:
  "map risk_score (clauses (analyze_document [] penalty_text [])) = [7] \<and>
   map risk_level (clauses (analyze_document [] penalty_text [])) = [''medium''] \<and>
   score_to_level 7 = ''high''"
  by (simp add: penalty_text_clauses penalty_text_score score_to_level_def)

text \<open>
  C2, as the code has it: the level is a function of the score in both scorers, with two
  threshold tables. In every clause record of an analysis the level is low up to 3,
  medium from 4 to 7 and high from 8; in the result of the document-level scorer it is
  low up to 3, medium from 4 to 6 and high from 7. The records of the two \<open>except\<close>
  branches have score 5 and level medium, which agrees with both tables.
\<close>

theorem risk_level_of_score:
  "(\<forall>c \<in> set (clauses (analyze_document now text filename)).
      risk_level c =
        (if risk_score c \<le> 3 then ''low'' else if risk_score c \<le> 7 then ''medium'' else ''high'')) \<and>
   level (analyze_clause_risk c0) =
     (if score (analyze_clause_risk c0) \<le> 3 then ''low''
      else if score (analyze_clause_risk c0) \<le> 6 then ''medium'' else ''high'') \<and>
   risk_score (analyze_clause_error t i) = 5 \<and> risk_level (analyze_clause_error t i) = ''medium'' \<and>
   score clause_risk_error = 5 \<and> level clause_risk_error = ''medium''"
proof -
  have a: "level (assess_clause_risk t k) =
      (if score (assess_clause_risk t k) \<le> 3 then ''low''
       else if score (assess_clause_risk t k) \<le> 7 then ''medium'' else ''high'')" for t k
    by (auto simp: assess_clause_risk_def Let_def split: prod.split)
  have b: "\<forall>c \<in> set (clauses (analyze_document now text filename)).
      risk_level c =
        (if risk_score c \<le> 3 then ''low'' else if risk_score c \<le> 7 then ''medium'' else ''high'')"
  proof
    fix c assume "c \<in> set (clauses (analyze_document now text filename))"
    then obtain t i where c: "c = analyze_clause t i"
      by (auto simp: clauses_analyze_document)
    show "risk_level c =
        (if risk_score c \<le> 3 then ''low'' else if risk_score c \<le> 7 then ''medium'' else ''high'')"
      unfolding c analyze_clause_fields by (rule a)
  qed
  have c: "level (analyze_clause_risk c0) =
     (if score (analyze_clause_risk c0) \<le> 3 then ''low''
      else if score (analyze_clause_risk c0) \<le> 6 then ''medium'' else ''high'')"
    by (auto simp: analyze_clause_risk_def score_to_level_def Let_def split: prod.split)
  have d: "risk_score (analyze_clause_error t i) = 5 \<and>
      risk_level (analyze_clause_error t i) = ''medium'' \<and>
      score clause_risk_error = 5 \<and> level clause_risk_error = ''medium''"
    by (simp add: analyze_clause_error_def clause_risk_error_def)
  from b c d show ?thesis by blast
qed

theorem risk_level_of_score_witness:
  "analyze_clause penalty_text 0 \<in> set (clauses (analyze_document [] penalty_text [])) \<and>
   risk_score (analyze_clause penalty_text 0) = 7 \<and>
   risk_level (analyze_clause penalty_text 0) = ''medium'' \<and>
   score (analyze_clause_risk (clause_of ''penalty clause'' ''general'')) = 7 \<and>
   level (analyze_clause_risk (clause_of ''penalty clause'' ''general'')) = ''high''"
proof -
  have s: "score (analyze_clause_risk (clause_of ''penalty clause'' ''general'')) = 7"
    by code_simp
  from risk_level_of_score[of "[]" penalty_text "[]" "clause_of ''penalty clause'' ''general''"]
  show ?thesis
    by (simp add: penalty_text_clauses penalty_text_score s)
qed

text \<open>
  C5 fails on the code. The clause \<open>long_liability_text\<close> has 520 characters and names
  unlimited liability after the 500th. Its record keeps the first 500 characters and
  three dots as \<open>content\<close>, the document-level scorer reads that field and scores 7,
  and the same record with the full text as content scores 10.
\<close>

theorem truncated_content_is_scored:
  "clauses (analyze_document now long_liability_text filename) =
     [analyze_clause long_liability_text 0] \<and>
   length long_liability_text = 520 \<and>
   content (analyze_clause long_liability_text 0) = replicate 500 CHR ''x'' @ ''...'' \<and>
   clause_type (analyze_clause long_liability_text 0) = ''liability'' \<and>
   risk_score (analyze_clause long_liability_text 0) = 10 \<and>
   score (analyze_clause_risk (analyze_clause long_liability_text 0)) = 7 \<and>
   score (analyze_clause_risk
     ((analyze_clause long_liability_text 0)\<lparr>content := long_liability_text\<rparr>)) = 10 \<and>
   clause_breakdown (assess_risk fo (clauses (analyze_document now long_liability_text filename))) =
     [(''liability'', [7])]"
proof -
  let ?c = "analyze_clause long_liability_text 0"
  have cl: "clauses (analyze_document now long_liability_text filename) = [?c]"
    by (rule clauses_one_line) (simp_all add: long_liability_text_def not_space_x)
  have len: "length long_liability_text = 520"
    by (simp add: long_liability_text_def)
  have k0: "identify_clause_type '' unlimited liability'' = ''liability''"
    by code_simp
  have k: "clause_type ?c = ''liability''"
    by (simp add: analyze_clause_fields long_liability_text_def identify_clause_type_pad k0)
  have co: "content ?c = replicate 500 CHR ''x'' @ ''...''"
    by (simp add: analyze_clause_fields len) (simp add: long_liability_text_def)
  have s0: "score (assess_clause_risk '' unlimited liability'' ''liability'') = 10"
    by code_simp
  have rs: "risk_score ?c = 10"
    by (simp add: analyze_clause_fields long_liability_text_def identify_clause_type_pad
          assess_clause_risk_pad k0 s0)
  have d0: "score (analyze_clause_risk (clause_of ''...'' ''liability'')) = 7"
    by code_simp
  have d: "score (analyze_clause_risk ?c) = 7"
    by (subst analyze_clause_risk_clause_of) (simp add: k co clause_of_pad d0)
  have f0: "score (analyze_clause_risk (clause_of '' unlimited liability'' ''liability'')) = 10"
    by code_simp
  have f: "score (analyze_clause_risk (?c\<lparr>content := long_liability_text\<rparr>)) = 10"
    by (subst analyze_clause_risk_clause_of)
      (simp add: k, simp add: long_liability_text_def clause_of_pad f0)
  have bd: "clause_breakdown (assess_risk fo [?c]) = [(''liability'', [7])]"
    by (simp add: assess_risk_def Let_def d k breakdown_append_def split: prod.split)
  from cl len co k rs d f bd show ?thesis by simp
qed

text \<open>
  C6: for the empty clause list \<open>assess_risk\<close> returns the empty assessment: overall
  risk unknown, no clause, score 0, no top risk area, and the one default
  recommendation. It is a total function.
\<close>

theorem assess_risk_empty:
  "assess_risk fo [] = get_empty_risk_assessment \<and>
   overall_risk (assess_risk fo []) = ''unknown'' \<and>
   total_clauses (assess_risk fo []) = 0 \<and>
   doc_risk_score (assess_risk fo []) = 0 \<and>
   top_risk_areas (assess_risk fo []) = [] \<and>
   recommendations (assess_risk fo []) = [Rec_Analysis_Required] \<and>
   recommendations (assess_risk fo []) \<noteq> []"
  by (simp add: assess_risk_def get_empty_risk_assessment_def)

text \<open>
  C10: two calls of \<open>analyze_document\<close> on the same text and file name, which read the
  clock at two times, return the same clauses, hence the same risk score for each clause,
  the same document type and the same summary.
\<close>

theorem analyze_document_two_runs:
  "clauses (analyze_document now1 text filename) = clauses (analyze_document now2 text filename) \<and>
   map risk_score (clauses (analyze_document now1 text filename)) =
     map risk_score (clauses (analyze_document now2 text filename)) \<and>
   document_type (analyze_document now1 text filename) =
     document_type (analyze_document now2 text filename) \<and>
   summary (analyze_document now1 text filename) = summary (analyze_document now2 text filename)"
  by (simp add: analyze_document_def Let_def)


section \<open>Classification\<close>

lemma first_pattern_type_categories:
  "first_pattern_type clause_patterns t =
     (if category_matches ''termination'' t then Some ''termination''
      else if category_matches ''liability'' t then Some ''liability''
      else if category_matches ''payment'' t then Some ''payment''
      else if category_matches ''confidentiality'' t then Some ''confidentiality''
      else if category_matches ''intellectual_property'' t then Some ''intellectual_property''
      else if category_matches ''dispute_resolution'' t then Some ''dispute_resolution''
      else None)"
  unfolding category_matches_def clause_patterns_def by simp

lemma identify_clause_type_chain:
  "identify_clause_type text =
     (if category_matches ''termination'' (lower text) then ''termination''
      else if category_matches ''liability'' (lower text) then ''liability''
      else if category_matches ''payment'' (lower text) then ''payment''
      else if category_matches ''confidentiality'' (lower text) then ''confidentiality''
      else if category_matches ''intellectual_property'' (lower text)
        then ''intellectual_property''
      else if category_matches ''dispute_resolution'' (lower text) then ''dispute_resolution''
      else if sublist ''shall'' (lower text) \<or> sublist ''will'' (lower text) \<or>
            sublist ''must'' (lower text) \<or> sublist ''required'' (lower text)
         then ''obligation''
      else if sublist ''may'' (lower text) \<or> sublist ''can'' (lower text) \<or>
            sublist ''permitted'' (lower text) \<or> sublist ''allowed'' (lower text)
         then ''right''
      else ''general'')"
  by (simp add: identify_clause_type_def Let_def first_pattern_type_categories)

text \<open>
  C4: \<open>identify_clause_type\<close> returns one of the nine categories. The six categories
  of the pattern table are tried in the order termination, liability, payment,
  confidentiality, intellectual_property, dispute_resolution and the first one with a
  pattern found in the lower-cased text is returned, so a text with a termination
  pattern is a termination clause whatever else it matches. A text with no pattern of
  any category is an obligation when it has a modal word, else a right when it has a
  permission word, else general.
\<close>

theorem identify_clause_type_order:
  "identify_clause_type text \<in>
     {''termination'', ''liability'', ''payment'', ''confidentiality'',
      ''intellectual_property'', ''dispute_resolution'', ''obligation'', ''right'', ''general''} \<and>
   map fst clause_patterns =
     [''termination'', ''liability'', ''payment'', ''confidentiality'',
      ''intellectual_property'', ''dispute_resolution''] \<and>
   (category_matches ''termination'' (lower text) \<longrightarrow>
      identify_clause_type text = ''termination'') \<and>
   (\<not> category_matches ''termination'' (lower text) \<and>
    category_matches ''liability'' (lower text) \<longrightarrow>
      identify_clause_type text = ''liability'') \<and>
   (\<not> category_matches ''termination'' (lower text) \<and>
    \<not> category_matches ''liability'' (lower text) \<and>
    category_matches ''payment'' (lower text) \<longrightarrow>
      identify_clause_type text = ''payment'') \<and>
   (\<not> category_matches ''termination'' (lower text) \<and>
    \<not> category_matches ''liability'' (lower text) \<and>
    \<not> category_matches ''payment'' (lower text) \<and>
    category_matches ''confidentiality'' (lower text) \<longrightarrow>
      identify_clause_type text = ''confidentiality'') \<and>
   (\<not> category_matches ''termination'' (lower text) \<and>
    \<not> category_matches ''liability'' (lower text) \<and>
    \<not> category_matches ''payment'' (lower text) \<and>
    \<not> category_matches ''confidentiality'' (lower text) \<and>
    category_matches ''intellectual_property'' (lower text) \<longrightarrow>
      identify_clause_type text = ''intellectual_property'') \<and>
   (\<not> category_matches ''termination'' (lower text) \<and>
    \<not> category_matches ''liability'' (lower text) \<and>
    \<not> category_matches ''payment'' (lower text) \<and>
    \<not> category_matches ''confidentiality'' (lower text) \<and>
    \<not> category_matches ''intellectual_property'' (lower text) \<and>
    category_matches ''dispute_resolution'' (lower text) \<longrightarrow>
      identify_clause_type text = ''dispute_resolution'') \<and>
   ((\<forall>k. \<not> category_matches k (lower text)) \<longrightarrow>
      identify_clause_type text =
        (if sublist ''shall'' (lower text) \<or> sublist ''will'' (lower text) \<or>
            sublist ''must'' (lower text) \<or> sublist ''required'' (lower text)
         then ''obligation''
         else if sublist ''may'' (lower text) \<or> sublist ''can'' (lower text) \<or>
            sublist ''permitted'' (lower text) \<or> sublist ''allowed'' (lower text)
         then ''right''
         else ''general''))"
proof -
  have a: "map fst clause_patterns =
     [''termination'', ''liability'', ''payment'', ''confidentiality'',
      ''intellectual_property'', ''dispute_resolution'']"
    by (simp add: clause_patterns_def)
  show ?thesis
    unfolding identify_clause_type_chain a by simp
qed

lemma category_matches_names:
  "category_matches k t \<Longrightarrow>
   k \<in> {''termination'', ''liability'', ''payment'', ''confidentiality'',
         ''intellectual_property'', ''dispute_resolution''}"
  unfolding category_matches_def clause_patterns_def
  by (simp split: if_splits)

lemma no_category_matches:
  assumes "list_all (\<lambda>k. \<not> category_matches k t)
     [''termination'', ''liability'', ''payment'', ''confidentiality'',
      ''intellectual_property'', ''dispute_resolution'']"
  shows "\<forall>k. \<not> category_matches k t"
  using assms category_matches_names[of _ t] by auto

theorem identify_clause_type_order_witness:
  "category_matches ''termination'' (lower ''Liability upon Termination'') \<and>
   category_matches ''liability'' (lower ''Liability upon Termination'') \<and>
   identify_clause_type ''Liability upon Termination'' = ''termination'' \<and>
   \<not> category_matches ''termination'' (lower ''Damages and late fees'') \<and>
   category_matches ''liability'' (lower ''Damages and late fees'') \<and>
   category_matches ''payment'' (lower ''Damages and late fees'') \<and>
   identify_clause_type ''Damages and late fees'' = ''liability'' \<and>
   identify_clause_type ''The Invoice is due.'' = ''payment'' \<and>
   identify_clause_type ''Proprietary data'' = ''confidentiality'' \<and>
   identify_clause_type ''Copyright notice'' = ''intellectual_property'' \<and>
   identify_clause_type ''Arbitration in London'' = ''dispute_resolution'' \<and>
   (\<forall>k. \<not> category_matches k (lower ''The Buyer must sign.'')) \<and>
   identify_clause_type ''The Buyer must sign.'' = ''obligation'' \<and>
   (\<forall>k. \<not> category_matches k (lower ''The Buyer may sign.'')) \<and>
   identify_clause_type ''The Buyer may sign.'' = ''right'' \<and>
   (\<forall>k. \<not> category_matches k (lower ''The Buyer signs.'')) \<and>
   identify_clause_type ''The Buyer signs.'' = ''general''"
proof -
  have a: "category_matches ''termination'' (lower ''Liability upon Termination'')"
    and b: "category_matches ''liability'' (lower ''Liability upon Termination'')"
    and c: "\<not> category_matches ''termination'' (lower ''Damages and late fees'')"
    and d: "category_matches ''liability'' (lower ''Damages and late fees'')"
    and e: "category_matches ''payment'' (lower ''Damages and late fees'')"
    by code_simp+
  have p: "\<not> category_matches ''termination'' (lower ''The Invoice is due.'') \<and>
      \<not> category_matches ''liability'' (lower ''The Invoice is due.'') \<and>
      category_matches ''payment'' (lower ''The Invoice is due.'')"
    by code_simp
  have q: "\<not> category_matches ''termination'' (lower ''Proprietary data'') \<and>
      \<not> category_matches ''liability'' (lower ''Proprietary data'') \<and>
      \<not> category_matches ''payment'' (lower ''Proprietary data'') \<and>
      category_matches ''confidentiality'' (lower ''Proprietary data'')"
    by code_simp
  have r: "\<not> category_matches ''termination'' (lower ''Copyright notice'') \<and>
      \<not> category_matches ''liability'' (lower ''Copyright notice'') \<and>
      \<not> category_matches ''payment'' (lower ''Copyright notice'') \<and>
      \<not> category_matches ''confidentiality'' (lower ''Copyright notice'') \<and>
      category_matches ''intellectual_property'' (lower ''Copyright notice'')"
    by code_simp
  have s: "\<not> category_matches ''termination'' (lower ''Arbitration in London'') \<and>
      \<not> category_matches ''liability'' (lower ''Arbitration in London'') \<and>
      \<not> category_matches ''payment'' (lower ''Arbitration in London'') \<and>
      \<not> category_matches ''confidentiality'' (lower ''Arbitration in London'') \<and>
      \<not> category_matches ''intellectual_property'' (lower ''Arbitration in London'') \<and>
      category_matches ''dispute_resolution'' (lower ''Arbitration in London'')"
    by code_simp
  have f: "\<forall>k. \<not> category_matches k (lower ''The Buyer must sign.'')"
    by (rule no_category_matches) code_simp
  have g: "\<forall>k. \<not> category_matches k (lower ''The Buyer may sign.'')"
    by (rule no_category_matches) code_simp
  have h: "\<forall>k. \<not> category_matches k (lower ''The Buyer signs.'')"
    by (rule no_category_matches) code_simp
  have w: "sublist ''must'' (lower ''The Buyer must sign.'')"
    "\<not> (sublist ''shall'' (lower ''The Buyer may sign.'') \<or> sublist ''will'' (lower ''The Buyer may sign.'') \<or>
        sublist ''must'' (lower ''The Buyer may sign.'') \<or> sublist ''required'' (lower ''The Buyer may sign.''))"
    "sublist ''may'' (lower ''The Buyer may sign.'')"
    "\<not> (sublist ''shall'' (lower ''The Buyer signs.'') \<or> sublist ''will'' (lower ''The Buyer signs.'') \<or>
        sublist ''must'' (lower ''The Buyer signs.'') \<or> sublist ''required'' (lower ''The Buyer signs.''))"
    "\<not> (sublist ''may'' (lower ''The Buyer signs.'') \<or> sublist ''can'' (lower ''The Buyer signs.'') \<or>
        sublist ''permitted'' (lower ''The Buyer signs.'') \<or> sublist ''allowed'' (lower ''The Buyer signs.''))"
    by code_simp+
  from identify_clause_type_order[of "''Liability upon Termination''"]
    identify_clause_type_order[of "''Damages and late fees''"] a b c d e
  have 1: "identify_clause_type ''Liability upon Termination'' = ''termination''"
    and 2: "identify_clause_type ''Damages and late fees'' = ''liability''"
    by simp_all
  from identify_clause_type_order[of "''The Buyer must sign.''"] f w(1)
  have 3: "identify_clause_type ''The Buyer must sign.'' = ''obligation''"
    by simp
  from identify_clause_type_order[of "''The Buyer may sign.''"] g w(2,3)
  have 4: "identify_clause_type ''The Buyer may sign.'' = ''right''"
    by simp
  from identify_clause_type_order[of "''The Buyer signs.''"] h w(4,5)
  have 5: "identify_clause_type ''The Buyer signs.'' = ''general''"
    by simp
  from identify_clause_type_order[of "''The Invoice is due.''"] p
  have 6: "identify_clause_type ''The Invoice is due.'' = ''payment''"
    by simp
  from identify_clause_type_order[of "''Proprietary data''"] q
  have 7: "identify_clause_type ''Proprietary data'' = ''confidentiality''"
    by simp
  from identify_clause_type_order[of "''Copyright notice''"] r
  have 8: "identify_clause_type ''Copyright notice'' = ''intellectual_property''"
    by simp
  from identify_clause_type_order[of "''Arbitration in London''"] s
  have 9: "identify_clause_type ''Arbitration in London'' = ''dispute_resolution''"
    by simp
  from a b c d e f g h 1 2 3 4 5 6 7 8 9 show ?thesis by blast
qed

section \<open>Simplification\<close>

text \<open>
  C9 as stated fails: \<open>both_triggers_text\<close> has the word termination, the words without
  and cause, the word payment and the amount $5,000; the explanation has the
  details of termination and not the amount.
\<close>

theorem simplify_clause_counterexample:
  "sublist ''termination'' (lower both_triggers_text) \<and>
   sublist ''payment'' (lower both_triggers_text) \<and>
   re_search amount_pattern both_triggers_text = Some (''$5,000'', []) \<and>
   simplify_clause both_triggers_text ''payment'' =
     ''This covers how much you pay and when payments are due.'' @
     '' You need to give 30 days notice.'' @
     '' Either party can terminate without giving a specific reason.''"
  by code_simp


lemma case_append_notice:
  "(case r of Some (m, days # _) \<Rightarrow> b @ f days | _ \<Rightarrow> b) =
   b @ (case r of Some (m, days # _) \<Rightarrow> f days | _ \<Rightarrow> [])"
  by (simp split: option.split prod.split list.split)

lemma case_append_amount:
  "(case r of Some (m, g) \<Rightarrow> b @ f m | None \<Rightarrow> b) =
   b @ (case r of Some (m, g) \<Rightarrow> f m | None \<Rightarrow> [])"
  by (simp split: option.split prod.split)

lemma if_append: "(if c then b @ x else b) = b @ (if c then x else [])"
  by simp

lemma details_shape:
  "(if T then (if C then (b @ n) @ cs else b @ n)
    else if P then (if L then (b @ a) @ ls else b @ a) else b) =
   b @ (if T then n @ (if C then cs else []) else if P then a @ (if L then ls else []) else [])"
  by simp

text \<open>
  C9, as the code has it: after the template of the category, a text with the word
  termination gets the notice sentence and the without-cause note, each under its own
  condition and in that order, and nothing about payment; a text without the word
  termination and with the word payment gets the amount sentence and the late-fee
  note, each under its own condition and in that order; any other text gets the
  template alone.
\<close>

theorem simplify_clause_details:
  "simplify_clause clause_text k =
     template k @
     (if sublist ''termination'' (lower clause_text)
      then notice_detail clause_text @ cause_detail clause_text
      else if sublist ''payment'' (lower clause_text)
      then amount_detail clause_text @ late_detail clause_text
      else [])"
proof -
  have n: "(if sublist ''notice'' (lower clause_text) then
             (case re_search notice_pattern (lower clause_text) of
                Some (m, days # _) \<Rightarrow>
                  template k @ '' You need to give '' @ days @ '' days notice.''
              | _ \<Rightarrow> template k)
            else template k) = template k @ notice_detail clause_text"
    unfolding notice_detail_def
      case_append_notice[where f = "\<lambda>days. '' You need to give '' @ days @ '' days notice.''"]
    by (rule if_append)
  have a: "(case re_search amount_pattern clause_text of
              Some (m, _) \<Rightarrow> template k @ '' The amount involved is '' @ m @ ''.''
            | None \<Rightarrow> template k) = template k @ amount_detail clause_text"
    unfolding amount_detail_def
    by (rule case_append_amount[where f = "\<lambda>m. '' The amount involved is '' @ m @ ''.''"])
  show ?thesis
    unfolding simplify_clause_def Let_def template_def[symmetric] n a
      cause_detail_def late_detail_def
    by (rule details_shape)
qed


section \<open>Recommendations\<close>

lemma breakdown_append_keys:
  "map fst (breakdown_append k sc bd) = (if k \<in> set (map fst bd) then map fst bd else map fst bd @ [k])"
  by (auto simp: breakdown_append_def)

lemma breakdown_append_distinct:
  "distinct (map fst bd) \<Longrightarrow> distinct (map fst (breakdown_append k sc bd))"
  by (simp add: breakdown_append_keys)

lemma collect_risks_distinct:
  "distinct (map fst bd) \<Longrightarrow> distinct (map fst (snd (snd (collect_risks cs (rs, fs, bd)))))"
proof (induction cs arbitrary: rs fs bd)
  case Nil
  then show ?case by simp
next
  case (Cons c cs)
  show ?case
    by (simp add: Let_def) (rule Cons.IH, rule breakdown_append_distinct, rule Cons.prems)
qed

lemma clause_specific_recommendations_set:
  "r \<in> set (clause_specific_recommendations bd) \<Longrightarrow>
   (r = Rec_Payment \<and> ''payment'' \<in> set (map fst bd)) \<or>
   (r = Rec_Liability \<and> ''liability'' \<in> set (map fst bd)) \<or>
   (r = Rec_Termination \<and> ''termination'' \<in> set (map fst bd))"
proof (induction bd)
  case Nil
  then show ?case by simp
next
  case (Cons e bd)
  obtain k scores where e: "e = (k, scores)" by (cases e)
  from Cons.prems consider
    "r \<in> set (if scores \<noteq> [] \<and> Max (set scores) \<ge> 8 then
        (if k = ''payment'' then [Rec_Payment]
         else if k = ''liability'' then [Rec_Liability]
         else if k = ''termination'' then [Rec_Termination]
         else [])
      else [])" | "r \<in> set (clause_specific_recommendations bd)"
    by (auto simp: e)
  then show ?case
  proof cases
    case 1
    then show ?thesis by (auto simp: e split: if_splits)
  next
    case 2
    from Cons.IH[OF 2] show ?thesis by auto
  qed
qed

lemma clause_specific_recommendations_distinct:
  "distinct (map fst bd) \<Longrightarrow> distinct (clause_specific_recommendations bd)"
proof (induction bd)
  case Nil
  then show ?case by simp
next
  case (Cons e bd)
  obtain k scores where e: "e = (k, scores)" by (cases e)
  from Cons.prems have k: "k \<notin> set (map fst bd)" and d: "distinct (map fst bd)"
    by (simp_all add: e)
  have "distinct (clause_specific_recommendations bd)"
    using Cons.IH d by simp
  moreover have "Rec_Payment \<notin> set (clause_specific_recommendations bd)" if "k = ''payment''"
    using clause_specific_recommendations_set[of Rec_Payment bd] k that by auto
  moreover have "Rec_Liability \<notin> set (clause_specific_recommendations bd)" if "k = ''liability''"
    using clause_specific_recommendations_set[of Rec_Liability bd] k that by auto
  moreover have "Rec_Termination \<notin> set (clause_specific_recommendations bd)" if "k = ''termination''"
    using clause_specific_recommendations_set[of Rec_Termination bd] k that by auto
  ultimately show ?case by (simp add: e)
qed

lemma clause_specific_recommendations_length:
  assumes "distinct (map fst bd)"
  shows "length (clause_specific_recommendations bd) \<le> 3"
proof -
  have "set (clause_specific_recommendations bd) \<subseteq> {Rec_Payment, Rec_Liability, Rec_Termination}"
    using clause_specific_recommendations_set by blast
  then have "card (set (clause_specific_recommendations bd)) \<le> card {Rec_Payment, Rec_Liability, Rec_Termination}"
    by (intro card_mono) simp_all
  also have "\<dots> = 3" by simp
  finally show ?thesis
    using distinct_card[OF clause_specific_recommendations_distinct[OF assms]] by simp
qed

lemma factor_recommendations_length: "length (factor_recommendations fs) \<le> 4"
  by (simp add: factor_recommendations_def)

lemma factor_recommendations_set:
  "set (factor_recommendations fs) \<subseteq> {Rec_Liability_Cap, Rec_Cure_Period, Rec_Balanced, Rec_Clarify}"
  by (auto simp: factor_recommendations_def split: if_splits)

lemma generate_recommendations_shape:
  assumes "distinct (map fst bd)"
  shows "generate_recommendations overall fl bd =
     (let triggered = factor_recommendations (set fl) @ clause_specific_recommendations bd
      in if overall = ''high'' then [Rec_Critical, Rec_Negotiate] @ triggered
         else if overall = ''medium'' then [Rec_Caution, Rec_Focus] @ triggered
         else if triggered = [] then [Rec_Manageable, Rec_Understand, Rec_Keep_Copies]
         else Rec_Manageable # triggered)"
proof -
  have "length (factor_recommendations (set fl) @ clause_specific_recommendations bd) \<le> 7"
    using factor_recommendations_length[of "set fl"] clause_specific_recommendations_length[OF assms]
    by simp
  then show ?thesis
    by (auto simp: generate_recommendations_def Let_def)
qed

lemma determine_overall_risk_values:
  "determine_overall_risk a m h \<in> {''high'', ''medium'', ''low''}"
  by (simp add: determine_overall_risk_def)

lemma assess_risk_recommendations:
  assumes "cs \<noteq> []"
  shows "recommendations (assess_risk fo cs) =
     generate_recommendations (overall_risk (assess_risk fo cs))
       (fst (snd (collect_risks cs ([], [], [])))) (clause_breakdown (assess_risk fo cs))"
    and "doc_risk_factors (assess_risk fo cs) = set (fst (snd (collect_risks cs ([], [], []))))"
    and "clause_breakdown (assess_risk fo cs) = snd (snd (collect_risks cs ([], [], [])))"
    and "overall_risk (assess_risk fo cs) \<in> {''high'', ''medium'', ''low''}"
  using assms determine_overall_risk_values
  by (simp_all add: assess_risk_def Let_def split: prod.split)

text \<open>
  C8 as stated fails: for \<open>unlimited_liability_clauses\<close> the overall risk is high, and
  the list begins with the two fixed messages of the high tier, not with one, before the
  two triggered messages.
\<close>

theorem recommendations_counterexample:
  "unlimited_liability_clauses \<noteq> [] \<and>
   overall_risk (assess_risk plain_ops unlimited_liability_clauses) = ''high'' \<and>
   recommendations (assess_risk plain_ops unlimited_liability_clauses) =
     [Rec_Critical, Rec_Negotiate, Rec_Liability_Cap, Rec_Liability]"
  by code_simp

text \<open>
  C8, as the code has it by design: for every clause list that is not empty the overall
  risk is high, medium or low, and the recommendations begin with the fixed messages of
  that tier, two for high, two for medium and one for low. When messages are triggered,
  the list is the messages of the tier followed by the triggered ones, and no generic
  recommendation is appended. When the tier is low and nothing is triggered, the two
  generic recommendations are appended after the one message. The list has at most 10
  entries. What follows the two messages of the high or of the medium tier when nothing
  is triggered is not stated.
\<close>

theorem recommendations_structure:
  assumes "cs \<noteq> []"
  shows
    "overall_risk (assess_risk fo cs) \<in> {''high'', ''medium'', ''low''} \<and>
     (overall_risk (assess_risk fo cs) = ''high'' \<longrightarrow>
        take 2 (recommendations (assess_risk fo cs)) = [Rec_Critical, Rec_Negotiate]) \<and>
     (overall_risk (assess_risk fo cs) = ''medium'' \<longrightarrow>
        take 2 (recommendations (assess_risk fo cs)) = [Rec_Caution, Rec_Focus]) \<and>
     (overall_risk (assess_risk fo cs) = ''low'' \<longrightarrow>
        take 1 (recommendations (assess_risk fo cs)) = [Rec_Manageable]) \<and>
     (factor_recommendations (doc_risk_factors (assess_risk fo cs)) @
      clause_specific_recommendations (clause_breakdown (assess_risk fo cs)) \<noteq> [] \<longrightarrow>
        recommendations (assess_risk fo cs) =
          (if overall_risk (assess_risk fo cs) = ''high'' then [Rec_Critical, Rec_Negotiate]
           else if overall_risk (assess_risk fo cs) = ''medium'' then [Rec_Caution, Rec_Focus]
           else [Rec_Manageable]) @
          factor_recommendations (doc_risk_factors (assess_risk fo cs)) @
          clause_specific_recommendations (clause_breakdown (assess_risk fo cs)) \<and>
        Rec_Understand \<notin> set (recommendations (assess_risk fo cs)) \<and>
        Rec_Keep_Copies \<notin> set (recommendations (assess_risk fo cs))) \<and>
     (overall_risk (assess_risk fo cs) = ''low'' \<and>
      factor_recommendations (doc_risk_factors (assess_risk fo cs)) @
      clause_specific_recommendations (clause_breakdown (assess_risk fo cs)) = [] \<longrightarrow>
        recommendations (assess_risk fo cs) =
          [Rec_Manageable, Rec_Understand, Rec_Keep_Copies]) \<and>
     length (recommendations (assess_risk fo cs)) \<le> 10"
proof -
  let ?a = "assess_risk fo cs"
  let ?t = "factor_recommendations (doc_risk_factors ?a) @
            clause_specific_recommendations (clause_breakdown ?a)"
  have d: "distinct (map fst (clause_breakdown ?a))"
    unfolding assess_risk_recommendations(3)[OF assms]
    by (rule collect_risks_distinct) simp
  have o: "overall_risk ?a \<in> {''high'', ''medium'', ''low''}"
    by (rule assess_risk_recommendations(4)[OF assms])
  have r: "recommendations ?a =
       (let triggered = ?t
        in if overall_risk ?a = ''high'' then [Rec_Critical, Rec_Negotiate] @ triggered
           else if overall_risk ?a = ''medium'' then [Rec_Caution, Rec_Focus] @ triggered
           else if triggered = [] then [Rec_Manageable, Rec_Understand, Rec_Keep_Copies]
           else Rec_Manageable # triggered)"
    unfolding assess_risk_recommendations(1)[OF assms] generate_recommendations_shape[OF d]
      assess_risk_recommendations(2)[OF assms] ..
  have u: "Rec_Understand \<notin> set ?t" "Rec_Keep_Copies \<notin> set ?t"
    using factor_recommendations_set[of "doc_risk_factors ?a"]
      clause_specific_recommendations_set[of _ "clause_breakdown ?a"]
    by auto
  have l: "length (recommendations ?a) \<le> 10"
    unfolding assess_risk_recommendations(1)[OF assms]
    by (simp add: generate_recommendations_def Let_def)
  have h: "overall_risk ?a = ''high'' \<longrightarrow> take 2 (recommendations ?a) = [Rec_Critical, Rec_Negotiate]"
    unfolding r by (simp add: Let_def)
  have m: "overall_risk ?a = ''medium'' \<longrightarrow> take 2 (recommendations ?a) = [Rec_Caution, Rec_Focus]"
    unfolding r by (simp add: Let_def)
  have w: "overall_risk ?a = ''low'' \<longrightarrow> take 1 (recommendations ?a) = [Rec_Manageable]"
    unfolding r by (simp add: Let_def)
  have t: "?t \<noteq> [] \<longrightarrow>
        recommendations ?a =
          (if overall_risk ?a = ''high'' then [Rec_Critical, Rec_Negotiate]
           else if overall_risk ?a = ''medium'' then [Rec_Caution, Rec_Focus]
           else [Rec_Manageable]) @ ?t \<and>
        Rec_Understand \<notin> set (recommendations ?a) \<and>
        Rec_Keep_Copies \<notin> set (recommendations ?a)"
  proof
    assume ne: "?t \<noteq> []"
    have e: "recommendations ?a =
          (if overall_risk ?a = ''high'' then [Rec_Critical, Rec_Negotiate]
           else if overall_risk ?a = ''medium'' then [Rec_Caution, Rec_Focus]
           else [Rec_Manageable]) @ ?t"
      using ne by (subst r) (auto simp: Let_def)
    have "Rec_Understand \<notin> set (recommendations ?a)" "Rec_Keep_Copies \<notin> set (recommendations ?a)"
      unfolding e using u by auto
    with e show "recommendations ?a =
          (if overall_risk ?a = ''high'' then [Rec_Critical, Rec_Negotiate]
           else if overall_risk ?a = ''medium'' then [Rec_Caution, Rec_Focus]
           else [Rec_Manageable]) @ ?t \<and>
        Rec_Understand \<notin> set (recommendations ?a) \<and>
        Rec_Keep_Copies \<notin> set (recommendations ?a)"
      by blast
  qed
  have f: "overall_risk ?a = ''low'' \<and> ?t = [] \<longrightarrow>
        recommendations ?a = [Rec_Manageable, Rec_Understand, Rec_Keep_Copies]"
    by (subst r) (simp add: Let_def)
  from o h m w t f l show ?thesis by blast
qed

theorem recommendations_structure_witness:
  "unlimited_liability_clauses \<noteq> [] \<and>
   overall_risk (assess_risk plain_ops unlimited_liability_clauses) = ''high'' \<and>
   factor_recommendations (doc_risk_factors (assess_risk plain_ops unlimited_liability_clauses)) @
     clause_specific_recommendations
       (clause_breakdown (assess_risk plain_ops unlimited_liability_clauses)) =
     [Rec_Liability_Cap, Rec_Liability] \<and>
   recommendations (assess_risk plain_ops unlimited_liability_clauses) =
     [Rec_Critical, Rec_Negotiate, Rec_Liability_Cap, Rec_Liability] \<and>
   one_sided_clauses \<noteq> [] \<and>
   overall_risk (assess_risk plain_ops one_sided_clauses) = ''medium'' \<and>
   recommendations (assess_risk plain_ops one_sided_clauses) =
     [Rec_Caution, Rec_Focus, Rec_Balanced] \<and>
   delay_clauses \<noteq> [] \<and>
   overall_risk (assess_risk plain_ops delay_clauses) = ''low'' \<and>
   recommendations (assess_risk plain_ops delay_clauses) = [Rec_Manageable, Rec_Balanced] \<and>
   confidentiality_clauses \<noteq> [] \<and>
   overall_risk (assess_risk plain_ops confidentiality_clauses) = ''low'' \<and>
   factor_recommendations (doc_risk_factors (assess_risk plain_ops confidentiality_clauses)) @
     clause_specific_recommendations
       (clause_breakdown (assess_risk plain_ops confidentiality_clauses)) = [] \<and>
   recommendations (assess_risk plain_ops confidentiality_clauses) =
     [Rec_Manageable, Rec_Understand, Rec_Keep_Copies]"
proof -
  have n: "unlimited_liability_clauses \<noteq> []" "one_sided_clauses \<noteq> []" "delay_clauses \<noteq> []"
    "confidentiality_clauses \<noteq> []"
    by (simp_all add: unlimited_liability_clauses_def one_sided_clauses_def delay_clauses_def
          confidentiality_clauses_def)
  have o: "overall_risk (assess_risk plain_ops unlimited_liability_clauses) = ''high''"
    "overall_risk (assess_risk plain_ops one_sided_clauses) = ''medium''"
    "overall_risk (assess_risk plain_ops delay_clauses) = ''low''"
    "overall_risk (assess_risk plain_ops confidentiality_clauses) = ''low''"
    by code_simp+
  have t: "factor_recommendations (doc_risk_factors (assess_risk plain_ops unlimited_liability_clauses)) @
      clause_specific_recommendations
        (clause_breakdown (assess_risk plain_ops unlimited_liability_clauses)) =
      [Rec_Liability_Cap, Rec_Liability]"
    "factor_recommendations (doc_risk_factors (assess_risk plain_ops one_sided_clauses)) @
      clause_specific_recommendations (clause_breakdown (assess_risk plain_ops one_sided_clauses)) =
      [Rec_Balanced]"
    "factor_recommendations (doc_risk_factors (assess_risk plain_ops delay_clauses)) @
      clause_specific_recommendations (clause_breakdown (assess_risk plain_ops delay_clauses)) =
      [Rec_Balanced]"
    "factor_recommendations (doc_risk_factors (assess_risk plain_ops confidentiality_clauses)) @
      clause_specific_recommendations
        (clause_breakdown (assess_risk plain_ops confidentiality_clauses)) = []"
    by code_simp+
  from recommendations_structure[OF n(1), of plain_ops] o(1) t(1)
  have 1: "recommendations (assess_risk plain_ops unlimited_liability_clauses) =
      [Rec_Critical, Rec_Negotiate, Rec_Liability_Cap, Rec_Liability]"
    by simp
  from recommendations_structure[OF n(2), of plain_ops] o(2) t(2)
  have 2: "recommendations (assess_risk plain_ops one_sided_clauses) =
      [Rec_Caution, Rec_Focus, Rec_Balanced]"
    by simp
  from recommendations_structure[OF n(3), of plain_ops] o(3) t(3)
  have 3: "recommendations (assess_risk plain_ops delay_clauses) = [Rec_Manageable, Rec_Balanced]"
    by simp
  from recommendations_structure[OF n(4), of plain_ops] o(4) t(4)
  have 4: "recommendations (assess_risk plain_ops confidentiality_clauses) =
      [Rec_Manageable, Rec_Understand, Rec_Keep_Copies]"
    by simp
  from n o t(1,4) 1 2 3 4 show ?thesis by blast
qed

section \<open>Appending a high-risk phrase\<close>

lemma no_new_occurrence:
  assumes "\<not> can_complete w q"
  shows "sublist w (u @ q) \<longleftrightarrow> sublist w u"
proof
  assume "sublist w (u @ q)"
  then consider "sublist w u" | "sublist w q"
    | w1 w2 where "w = w1 @ w2" "suffix w1 u" "prefix w2 q"
    unfolding sublist_append by blast
  then show "sublist w u"
  proof cases
    case 1
    then show ?thesis .
  next
    case 2
    with assms show ?thesis by (simp add: can_complete_def)
  next
    case 3
    show ?thesis
    proof (cases "w2 = []")
      case True
      with 3 have "suffix w u" by simp
      then show ?thesis by (rule suffix_imp_sublist)
    next
      case False
      show ?thesis
      proof (cases "w1 = []")
        case True
        with 3 have "prefix w q" by simp
        then have "sublist w q" by (rule prefix_imp_sublist)
        with assms show ?thesis by (simp add: can_complete_def)
      next
        case w1: False
        have "1 \<le> length w1 \<and> length w1 < length w"
          using w1 False 3(1) by (cases w1; cases w2) simp_all
        then have k: "length w1 \<in> set [1..<length w]"
          by simp
        have "prefix (drop (length w1) w) q"
          using 3 by simp
        with k have "list_ex (\<lambda>k. prefix (drop k w) q) [1..<length w]"
          unfolding list_ex_iff by blast
        with assms show ?thesis by (simp add: can_complete_def)
      qed
    qed
  qed
next
  assume "sublist w u"
  then show "sublist w (u @ q)"
    by (simp add: sublist_append)
qed

lemma count_hits_mono:
  assumes "\<And>x. x \<in> set xs \<Longrightarrow> P x \<Longrightarrow> Q x"
  shows "length (filter P xs) \<le> length (filter Q xs)"
  using assms by (induction xs) auto

lemma add_hits_fst:
  "fst (add_hits w msg text ts st) =
   fst st + w * int (length (filter (\<lambda>t. sublist (lower t) text) ts))"
proof (induction ts arbitrary: st)
  case Nil
  show ?case by simp
next
  case (Cons t ts)
  obtain sc fs where st: "st = (sc, fs)" by (cases st)
  show ?case
    by (simp add: st Cons.IH algebra_simps)
qed

lemma add_table_hits_fst:
  "fst (add_table_hits w msg text tbl st) =
   fst st + w * int (length (filter (\<lambda>t. sublist (lower t) text) (concat (map snd tbl))))"
proof (induction tbl arbitrary: st)
  case Nil
  show ?case by simp
next
  case (Cons e tbl)
  obtain k ts where e: "e = (k, ts)" by (cases e)
  show ?case
    by (simp add: e Cons.IH add_hits_fst algebra_simps)
qed

lemma clamp_mono: "(a::int) \<le> b \<Longrightarrow> max 1 (min 10 a) \<le> max 1 (min 10 b)"
  by simp

subsection \<open>The per-clause scorer\<close>

lemma clause_specific_risk_fst:
  "fst (clause_specific_risk k text (sc, fs)) =
   sc + (if k = ''termination'' then
           (if sublist ''immediate'' text \<or> sublist ''without notice'' text then 2 else 0)
         else if k = ''liability'' then
           (if sublist ''unlimited'' text then 3 else if sublist ''limited'' text then - 1 else 0)
         else if k = ''payment'' then
           (if sublist ''penalty'' text \<or> sublist ''liquidated damages'' text then 2 else 0)
         else 0)"
  by (simp add: clause_specific_risk_def)

lemma assess_clause_raw_fst:
  "fst (assess_clause_raw t k) =
   5 + 2 * int (length (filter (\<lambda>w. sublist (lower w) (lower t)) high_risk_keywords))
     + int (length (filter (\<lambda>w. sublist (lower w) (lower t)) medium_risk_keywords))
     + (if k = ''termination'' then
           (if sublist ''immediate'' (lower t) \<or> sublist ''without notice'' (lower t) then 2 else 0)
         else if k = ''liability'' then
           (if sublist ''unlimited'' (lower t) then 3
            else if sublist ''limited'' (lower t) then - 1 else 0)
         else if k = ''payment'' then
           (if sublist ''penalty'' (lower t) \<or> sublist ''liquidated damages'' (lower t) then 2 else 0)
         else 0)"
proof -
  obtain sc fs where st: "add_hits 1 (\<lambda>t. ''Contains medium-risk term: '' @ quoted t)
      (lower t) medium_risk_keywords
      (add_hits 2 (\<lambda>t. ''Contains high-risk term: '' @ quoted t)
         (lower t) high_risk_keywords (5, [])) = (sc, fs)"
    by (cases "add_hits 1 (\<lambda>t. ''Contains medium-risk term: '' @ quoted t)
      (lower t) medium_risk_keywords
      (add_hits 2 (\<lambda>t. ''Contains high-risk term: '' @ quoted t)
         (lower t) high_risk_keywords (5, []))")
  have "sc = 5 + 2 * int (length (filter (\<lambda>w. sublist (lower w) (lower t)) high_risk_keywords))
     + int (length (filter (\<lambda>w. sublist (lower w) (lower t)) medium_risk_keywords))"
    using arg_cong[OF st, of fst] by (simp add: add_hits_fst)
  then show ?thesis
    unfolding assess_clause_raw_def Let_def st clause_specific_risk_fst by simp
qed

lemma high_risk_keywords_lower:
  "p \<in> set high_risk_keywords \<Longrightarrow> lower p = p"
proof -
  have "list_all (\<lambda>p. lower p = p) high_risk_keywords"
    by code_simp
  then show "p \<in> set high_risk_keywords \<Longrightarrow> lower p = p"
    by (simp add: list_all_iff)
qed

lemma high_risk_keywords_limited:
  "p \<in> set high_risk_keywords \<Longrightarrow> p = ''unlimited liability'' \<or> \<not> can_complete ''limited'' p"
proof -
  have "list_all (\<lambda>p. p = ''unlimited liability'' \<or> \<not> can_complete ''limited'' p) high_risk_keywords"
    by code_simp
  then show "p \<in> set high_risk_keywords \<Longrightarrow> p = ''unlimited liability'' \<or> \<not> can_complete ''limited'' p"
    by (simp add: list_all_iff)
qed

lemma assess_clause_raw_mono:
  assumes "p \<in> set high_risk_keywords"
  shows "fst (assess_clause_raw t k) \<le> fst (assess_clause_raw (t @ p) k)"
proof -
  let ?u = "lower t"
  have l: "lower (t @ p) = ?u @ p"
    by (simp add: lower_def high_risk_keywords_lower[OF assms, unfolded lower_def])
  have inc: "sublist w ?u \<Longrightarrow> sublist w (?u @ p)" for w
    by (simp add: sublist_append)
  have h: "length (filter (\<lambda>w. sublist (lower w) ?u) high_risk_keywords)
         \<le> length (filter (\<lambda>w. sublist (lower w) (?u @ p)) high_risk_keywords)"
    by (rule count_hits_mono) (rule inc)
  have m: "length (filter (\<lambda>w. sublist (lower w) ?u) medium_risk_keywords)
         \<le> length (filter (\<lambda>w. sublist (lower w) (?u @ p)) medium_risk_keywords)"
    by (rule count_hits_mono) (rule inc)
  have lim: "sublist ''limited'' ?u" if "sublist ''limited'' (?u @ p)" and "\<not> sublist ''unlimited'' (?u @ p)"
  proof -
    from high_risk_keywords_limited[OF assms] show ?thesis
    proof
      assume pu: "p = ''unlimited liability''"
      have "sublist ''unlimited'' ''unlimited liability''" by code_simp
      then have "sublist ''unlimited'' p" by (simp only: pu)
      then have "sublist ''unlimited'' (?u @ p)" by (simp add: sublist_append)
      with that show ?thesis by simp
    next
      assume "\<not> can_complete ''limited'' p"
      from no_new_occurrence[OF this] that show ?thesis by simp
    qed
  qed
  have s: "(if k = ''termination'' then
           (if sublist ''immediate'' ?u \<or> sublist ''without notice'' ?u then 2 else 0)
         else if k = ''liability'' then
           (if sublist ''unlimited'' ?u then 3 else if sublist ''limited'' ?u then - 1 else 0)
         else if k = ''payment'' then
           (if sublist ''penalty'' ?u \<or> sublist ''liquidated damages'' ?u then 2 else 0)
         else (0::int))
      \<le> (if k = ''termination'' then
           (if sublist ''immediate'' (?u @ p) \<or> sublist ''without notice'' (?u @ p) then 2 else 0)
         else if k = ''liability'' then
           (if sublist ''unlimited'' (?u @ p) then 3
            else if sublist ''limited'' (?u @ p) then - 1 else 0)
         else if k = ''payment'' then
           (if sublist ''penalty'' (?u @ p) \<or> sublist ''liquidated damages'' (?u @ p) then 2 else 0)
         else 0)"
    using inc[of "''immediate''"] inc[of "''without notice''"] inc[of "''unlimited''"]
      inc[of "''limited''"] inc[of "''penalty''"] inc[of "''liquidated damages''"] lim
    by (cases "k = ''termination''"; cases "k = ''liability''"; cases "k = ''payment''")
       (simp_all only: if_True if_False, auto)
  show ?thesis
    unfolding assess_clause_raw_fst l using h m s by linarith
qed

lemma assess_clause_risk_mono:
  assumes "p \<in> set high_risk_keywords"
  shows "score (assess_clause_risk t k) \<le> score (assess_clause_risk (t @ p) k)"
proof -
  have "score (assess_clause_risk t k) = max 1 (min 10 (fst (assess_clause_raw t k)))" for t
    by (simp add: assess_clause_risk_def Let_def split: prod.split)
  then show ?thesis
    using clamp_mono[OF assess_clause_raw_mono[OF assms]] by simp
qed


subsection \<open>The document-level scorer\<close>

lemma check_additional_risk_factors_fst:
  "fst (check_additional_risk_factors text sc) =
   sc + (if 2 \<le> length (filter (\<lambda>t. sublist t text) ambiguous_terms) then 2 else 0)
      + (if list_ex (\<lambda>i. sublist i text) one_sided_indicators then 2 else 0)
      + (if 3 \<le> length (filter (\<lambda>t. sublist ('' '' @ t @ '' '') text) broad_scope_terms)
         then 1 else 0)
      + (if list_ex (\<lambda>t. sublist t text) time_pressure_terms then 1 else 0)"
  by (simp add: check_additional_risk_factors_def risk_weights_def Let_def)

lemma analyze_clause_raw_fst:
  "fst (analyze_clause_raw c) =
   (case map_of base_risk_scores (clause_type c) of Some b \<Rightarrow> b | None \<Rightarrow> 4)
   + 3 * int (length (filter (\<lambda>t. sublist (lower t) (lower (content c)))
                 (concat (map snd high_risk_terms))))
   + 2 * int (length (filter (\<lambda>t. sublist (lower t) (lower (content c)))
                 (concat (map snd medium_risk_terms))))
   - int (length (filter (\<lambda>t. sublist (lower t) (lower (content c)))
                 (concat (map snd low_risk_terms))))
   + (if 2 \<le> length (filter (\<lambda>t. sublist t (lower (content c))) ambiguous_terms) then 2 else 0)
   + (if list_ex (\<lambda>i. sublist i (lower (content c))) one_sided_indicators then 2 else 0)
   + (if 3 \<le> length (filter (\<lambda>t. sublist ('' '' @ t @ '' '') (lower (content c)))
                 broad_scope_terms) then 1 else 0)
   + (if list_ex (\<lambda>t. sublist t (lower (content c))) time_pressure_terms then 1 else 0)"
  by (simp add: analyze_clause_raw_def Let_def split_beta add_table_hits_fst
        check_additional_risk_factors_fst risk_weights_def)

lemma analyze_clause_raw_mono:
  assumes low: "\<forall>w \<in> set (concat (map snd low_risk_terms)).
      sublist (lower w) (lower (content c) @ q) \<longrightarrow> sublist (lower w) (lower (content c))"
    and c': "clause_type c' = clause_type c" "lower (content c') = lower (content c) @ q"
  shows "fst (analyze_clause_raw c) \<le> fst (analyze_clause_raw c')"
proof -
  let ?u = "lower (content c)"
  have inc: "sublist w ?u \<Longrightarrow> sublist w (?u @ q)" for w
    by (simp add: sublist_append)
  have h: "length (filter (\<lambda>t. sublist (lower t) ?u) (concat (map snd high_risk_terms)))
      \<le> length (filter (\<lambda>t. sublist (lower t) (?u @ q)) (concat (map snd high_risk_terms)))"
    by (rule count_hits_mono) (rule inc)
  have m: "length (filter (\<lambda>t. sublist (lower t) ?u) (concat (map snd medium_risk_terms)))
      \<le> length (filter (\<lambda>t. sublist (lower t) (?u @ q)) (concat (map snd medium_risk_terms)))"
    by (rule count_hits_mono) (rule inc)
  have l: "length (filter (\<lambda>t. sublist (lower t) (?u @ q)) (concat (map snd low_risk_terms)))
      \<le> length (filter (\<lambda>t. sublist (lower t) ?u) (concat (map snd low_risk_terms)))"
    by (rule count_hits_mono) (use low in blast)
  have a: "length (filter (\<lambda>t. sublist t ?u) ambiguous_terms)
      \<le> length (filter (\<lambda>t. sublist t (?u @ q)) ambiguous_terms)"
    by (rule count_hits_mono) (rule inc)
  have b: "length (filter (\<lambda>t. sublist ('' '' @ t @ '' '') ?u) broad_scope_terms)
      \<le> length (filter (\<lambda>t. sublist ('' '' @ t @ '' '') (?u @ q)) broad_scope_terms)"
    by (rule count_hits_mono) (rule inc)
  have o: "list_ex (\<lambda>i. sublist i ?u) one_sided_indicators \<Longrightarrow>
      list_ex (\<lambda>i. sublist i (?u @ q)) one_sided_indicators"
    unfolding list_ex_iff using inc by blast
  have t: "list_ex (\<lambda>t. sublist t ?u) time_pressure_terms \<Longrightarrow>
      list_ex (\<lambda>t. sublist t (?u @ q)) time_pressure_terms"
    unfolding list_ex_iff using inc by blast
  have a': "(if 2 \<le> length (filter (\<lambda>t. sublist t ?u) ambiguous_terms) then 2 else (0::int))
      \<le> (if 2 \<le> length (filter (\<lambda>t. sublist t (?u @ q)) ambiguous_terms) then 2 else 0)"
    using a by simp
  have b': "(if 3 \<le> length (filter (\<lambda>t. sublist ('' '' @ t @ '' '') ?u) broad_scope_terms)
              then 1 else (0::int))
      \<le> (if 3 \<le> length (filter (\<lambda>t. sublist ('' '' @ t @ '' '') (?u @ q)) broad_scope_terms)
              then 1 else 0)"
    using b by simp
  have o': "(if list_ex (\<lambda>i. sublist i ?u) one_sided_indicators then 2 else (0::int))
      \<le> (if list_ex (\<lambda>i. sublist i (?u @ q)) one_sided_indicators then 2 else 0)"
    using o by simp
  have t': "(if list_ex (\<lambda>t. sublist t ?u) time_pressure_terms then 1 else (0::int))
      \<le> (if list_ex (\<lambda>t. sublist t (?u @ q)) time_pressure_terms then 1 else 0)"
    using t by simp
  show ?thesis
    unfolding analyze_clause_raw_fst c' using h m l a' b' o' t' by linarith
qed

lemma analyze_clause_risk_score:
  "score (analyze_clause_risk c) = max 1 (min 10 (fst (analyze_clause_raw c)))"
  by (simp add: analyze_clause_risk_def Let_def split: prod.split)

lemma high_risk_terms_lower:
  "p \<in> set (concat (map snd high_risk_terms)) \<Longrightarrow> lower p = p"
proof -
  have "list_all (\<lambda>p. lower p = p) (concat (map snd high_risk_terms))"
    by code_simp
  then show "p \<in> set (concat (map snd high_risk_terms)) \<Longrightarrow> lower p = p"
    unfolding list_all_iff by blast
qed

lemma protective_terms_after_space:
  assumes "p \<in> set (concat (map snd high_risk_terms))"
    and "w \<in> set (concat (map snd low_risk_terms))"
  shows "\<not> can_complete (lower w) ('' '' @ p)"
proof -
  have "list_all (\<lambda>w. list_all (\<lambda>p. \<not> can_complete (lower w) ('' '' @ p))
          (concat (map snd high_risk_terms))) (concat (map snd low_risk_terms))"
    by code_simp
  with assms show ?thesis
    unfolding list_all_iff by blast
qed

text \<open>
  C7 as stated fails for the document-level scorer: appended to \<open>almost_protective\<close>,
  which has it already, the high-risk phrase "no refund" completes the protective term
  "mutual liability limitation", and the score goes from 7 to 6.
\<close>

theorem high_risk_phrase_counterexample:
  "''no refund'' \<in> set (concat (map snd high_risk_terms)) \<and>
   score (analyze_clause_risk (clause_of almost_protective ''general'')) = 7 \<and>
   score (analyze_clause_risk (clause_of (almost_protective @ ''no refund'') ''general'')) = 6"
  by code_simp

text \<open>
  C7, as the code has it. For the per-clause scorer, appending one of its high-risk
  keywords to a clause text never lowers the score, whatever the text and the category.
  For the document-level scorer, appending one of its high-risk terms to the content of
  a clause never lowers the score when no protective term is found in the new content
  that was not found in the old one; this is so whenever the term is appended after a
  space.
\<close>

theorem high_risk_phrase_monotone:
  "(p \<in> set high_risk_keywords \<longrightarrow>
      score (assess_clause_risk t k) \<le> score (assess_clause_risk (t @ p) k)) \<and>
   (q \<in> set (concat (map snd high_risk_terms)) \<and>
    (\<forall>w \<in> set (concat (map snd low_risk_terms)).
        sublist (lower w) (lower (content c @ q)) \<longrightarrow> sublist (lower w) (lower (content c))) \<longrightarrow>
      score (analyze_clause_risk c) \<le> score (analyze_clause_risk (c\<lparr>content := content c @ q\<rparr>))) \<and>
   (q \<in> set (concat (map snd high_risk_terms)) \<longrightarrow>
      score (analyze_clause_risk c)
        \<le> score (analyze_clause_risk (c\<lparr>content := content c @ '' '' @ q\<rparr>)))"
proof -
  have a: "score (assess_clause_risk t k) \<le> score (assess_clause_risk (t @ p) k)"
    if "p \<in> set high_risk_keywords"
    using that by (rule assess_clause_risk_mono)
  have b: "score (analyze_clause_risk c) \<le> score (analyze_clause_risk (c\<lparr>content := content c @ q\<rparr>))"
    if "\<forall>w \<in> set (concat (map snd low_risk_terms)).
        sublist (lower w) (lower (content c @ q)) \<longrightarrow> sublist (lower w) (lower (content c))"
  proof -
    have "fst (analyze_clause_raw c) \<le> fst (analyze_clause_raw (c\<lparr>content := content c @ q\<rparr>))"
      by (rule analyze_clause_raw_mono[where q = "lower q"]) (use that in \<open>simp_all add: lower_def\<close>)
    then show ?thesis
      unfolding analyze_clause_risk_score by (rule clamp_mono)
  qed
  have c: "score (analyze_clause_risk c)
        \<le> score (analyze_clause_risk (c\<lparr>content := content c @ '' '' @ q\<rparr>))"
    if q: "q \<in> set (concat (map snd high_risk_terms))"
  proof -
    have sp: "lower ('' '' @ q) = '' '' @ q"
      using high_risk_terms_lower[OF q] by (simp add: lower_def) code_simp
    have "fst (analyze_clause_raw c)
        \<le> fst (analyze_clause_raw (c\<lparr>content := content c @ '' '' @ q\<rparr>))"
    proof (rule analyze_clause_raw_mono[where q = "'' '' @ q"])
      show "\<forall>w \<in> set (concat (map snd low_risk_terms)).
          sublist (lower w) (lower (content c) @ '' '' @ q) \<longrightarrow> sublist (lower w) (lower (content c))"
        using no_new_occurrence[OF protective_terms_after_space[OF q]] by blast
      show "clause_type (c\<lparr>content := content c @ '' '' @ q\<rparr>) = clause_type c"
        by simp
      show "lower (content (c\<lparr>content := content c @ '' '' @ q\<rparr>)) = lower (content c) @ '' '' @ q"
        using sp by (simp add: lower_def)
    qed
    then show ?thesis
      unfolding analyze_clause_risk_score by (rule clamp_mono)
  qed
  from a b c show ?thesis by blast
qed

theorem high_risk_phrase_monotone_witness:
  "''penalty'' \<in> set high_risk_keywords \<and>
   score (assess_clause_risk ''A late fee applies.'' ''payment'') = 5 \<and>
   score (assess_clause_risk (''A late fee applies.'' @ ''penalty'') ''payment'') = 9 \<and>
   ''no refund'' \<in> set (concat (map snd high_risk_terms)) \<and>
   list_all (\<lambda>w. sublist (lower w) (lower (''A late fee applies.'' @ ''no refund'')) \<longrightarrow>
                 sublist (lower w) (lower ''A late fee applies.''))
     (concat (map snd low_risk_terms)) \<and>
   score (analyze_clause_risk (clause_of ''A late fee applies.'' ''payment''))
     \<le> score (analyze_clause_risk (clause_of (''A late fee applies.'' @ ''no refund'') ''payment'')) \<and>
   score (analyze_clause_risk (clause_of ''A late fee applies.'' ''payment''))
     \<le> score (analyze_clause_risk (clause_of (''A late fee applies.'' @ '' '' @ ''no refund'') ''payment''))"
proof -
  have p: "''penalty'' \<in> set high_risk_keywords"
    and s1: "score (assess_clause_risk ''A late fee applies.'' ''payment'') = 5"
    and s2: "score (assess_clause_risk (''A late fee applies.'' @ ''penalty'') ''payment'') = 9"
    and q: "''no refund'' \<in> set (concat (map snd high_risk_terms))"
    and l: "list_all (\<lambda>w. sublist (lower w) (lower (''A late fee applies.'' @ ''no refund'')) \<longrightarrow>
                 sublist (lower w) (lower ''A late fee applies.''))
     (concat (map snd low_risk_terms))"
    by code_simp+
  from high_risk_phrase_monotone[of "''penalty''" "''A late fee applies.''" "''payment''"
      "''no refund''" "clause_of ''A late fee applies.'' ''payment''"] p s1 s2 q l
  show ?thesis
    by (simp add: clause_of_def list_all_iff)
qed


section \<open>The score is the clamped total\<close>

lemma assess_clause_risk_score:
  "score (assess_clause_risk t k) = max 1 (min 10 (fst (assess_clause_raw t k)))"
  by (simp add: assess_clause_risk_def Let_def split: prod.split)

text \<open>
  C1: for every clause text and category, the score each scorer returns is its total,
  the base plus the adjustments, clamped to the range from 1 to 10, hence an integer
  between 1 and 10. In the per-clause scorer \<open>assess_clause_risk\<close> the total is 5, plus
  2 for each high-risk keyword found, plus 1 for each medium-risk keyword found, plus
  the adjustment of the category. In the document-level per-clause scorer
  \<open>analyze_clause_risk\<close> it is the base score of the clause type, plus 3 for each
  high-risk term found, plus 2 for each medium-risk term found, minus 1 for each
  protective term found, plus the four additional adjustments. The result of the
  \<open>except\<close> branch of the latter has score 5.
\<close>

theorem risk_score_in_range:
  "score (assess_clause_risk clause_text category) =
     max 1 (min 10 (fst (assess_clause_raw clause_text category))) \<and>
   fst (assess_clause_raw clause_text category) =
     5 + 2 * int (length (filter (\<lambda>w. sublist (lower w) (lower clause_text)) high_risk_keywords))
       + int (length (filter (\<lambda>w. sublist (lower w) (lower clause_text)) medium_risk_keywords))
       + (if category = ''termination'' then
            (if sublist ''immediate'' (lower clause_text) \<or>
                sublist ''without notice'' (lower clause_text) then 2 else 0)
          else if category = ''liability'' then
            (if sublist ''unlimited'' (lower clause_text) then 3
             else if sublist ''limited'' (lower clause_text) then - 1 else 0)
          else if category = ''payment'' then
            (if sublist ''penalty'' (lower clause_text) \<or>
                sublist ''liquidated damages'' (lower clause_text) then 2 else 0)
          else 0) \<and>
   1 \<le> score (assess_clause_risk clause_text category) \<and>
   score (assess_clause_risk clause_text category) \<le> 10 \<and>
   score (analyze_clause_risk c) = max 1 (min 10 (fst (analyze_clause_raw c))) \<and>
   fst (analyze_clause_raw c) =
     (case map_of base_risk_scores (clause_type c) of Some b \<Rightarrow> b | None \<Rightarrow> 4)
     + 3 * int (length (filter (\<lambda>t. sublist (lower t) (lower (content c)))
                   (concat (map snd high_risk_terms))))
     + 2 * int (length (filter (\<lambda>t. sublist (lower t) (lower (content c)))
                   (concat (map snd medium_risk_terms))))
     - int (length (filter (\<lambda>t. sublist (lower t) (lower (content c)))
                   (concat (map snd low_risk_terms))))
     + (if 2 \<le> length (filter (\<lambda>t. sublist t (lower (content c))) ambiguous_terms)
        then 2 else 0)
     + (if list_ex (\<lambda>i. sublist i (lower (content c))) one_sided_indicators then 2 else 0)
     + (if 3 \<le> length (filter (\<lambda>t. sublist ('' '' @ t @ '' '') (lower (content c)))
                   broad_scope_terms) then 1 else 0)
     + (if list_ex (\<lambda>t. sublist t (lower (content c))) time_pressure_terms then 1 else 0) \<and>
   1 \<le> score (analyze_clause_risk c) \<and> score (analyze_clause_risk c) \<le> 10 \<and>
   score clause_risk_error = 5"
proof -
  have a: "score (assess_clause_risk clause_text category) =
      max 1 (min 10 (fst (assess_clause_raw clause_text category)))"
    by (rule assess_clause_risk_score)
  have b: "score (analyze_clause_risk c) = max 1 (min 10 (fst (analyze_clause_raw c)))"
    by (rule analyze_clause_risk_score)
  have a': "1 \<le> score (assess_clause_risk clause_text category) \<and>
      score (assess_clause_risk clause_text category) \<le> 10"
    unfolding a by simp
  have b': "1 \<le> score (analyze_clause_risk c) \<and> score (analyze_clause_risk c) \<le> 10"
    unfolding b by simp
  have e: "score clause_risk_error = 5"
    by (simp add: clause_risk_error_def)
  from a a' b b' e assess_clause_raw_fst[of clause_text category] analyze_clause_raw_fst[of c]
  show ?thesis by blast
qed

end
